theory Spec2Isabelle
  imports Complex_Main
begin

section \<open>NumPy floating-point values\<close>

text \<open>
  A finite floating-point number is idealised as a real (no rounding, no overflow). The
  IEEE special values that NumPy's array arithmetic produces instead of raising are kept
  explicit. There is one zero, the positive one: the zeros that reach a division in
  \<open>phutil.py\<close> are sums and differences of finite numbers, which IEEE rounds to \<open>+0\<close>.
\<close>

datatype npfloat = Fin real | PInf | NInf | NaN

fun np_neg :: "npfloat \<Rightarrow> npfloat" where
  "np_neg (Fin x) = Fin (- x)"
| "np_neg PInf = NInf"
| "np_neg NInf = PInf"
| "np_neg NaN = NaN"

fun np_add :: "npfloat \<Rightarrow> npfloat \<Rightarrow> npfloat" where
  "np_add NaN _ = NaN"
| "np_add _ NaN = NaN"
| "np_add (Fin x) (Fin y) = Fin (x + y)"
| "np_add (Fin x) PInf = PInf"
| "np_add (Fin x) NInf = NInf"
| "np_add PInf NInf = NaN"
| "np_add PInf _ = PInf"
| "np_add NInf PInf = NaN"
| "np_add NInf _ = NInf"

fun np_sub :: "npfloat \<Rightarrow> npfloat \<Rightarrow> npfloat" where
  "np_sub NaN _ = NaN"
| "np_sub _ NaN = NaN"
| "np_sub (Fin x) (Fin y) = Fin (x - y)"
| "np_sub (Fin x) PInf = NInf"
| "np_sub (Fin x) NInf = PInf"
| "np_sub PInf PInf = NaN"
| "np_sub PInf _ = PInf"
| "np_sub NInf NInf = NaN"
| "np_sub NInf _ = NInf"

text \<open>
  Division of arrays: a zero divisor gives a signed infinity (the sign of the dividend)
  or not-a-number (\<open>0/0\<close>) together with a warning, never an exception.
\<close>

fun np_div :: "npfloat \<Rightarrow> npfloat \<Rightarrow> npfloat" where
  "np_div NaN _ = NaN"
| "np_div _ NaN = NaN"
| "np_div (Fin x) (Fin y) =
     (if y \<noteq> 0 then Fin (x / y)
      else if 0 < x then PInf
      else if x < 0 then NInf
      else NaN)"
| "np_div (Fin x) PInf = Fin 0"
| "np_div (Fin x) NInf = Fin 0"
| "np_div PInf (Fin y) = (if 0 \<le> y then PInf else NInf)"
| "np_div NInf (Fin y) = (if 0 \<le> y then NInf else PInf)"
| "np_div PInf _ = NaN"
| "np_div NInf _ = NaN"

text \<open>\<open>np.arctan\<close>: the arctangent of a signed infinity is the finite angle \<open>\<plusminus>\<pi>/2\<close>.\<close>

fun np_arctan :: "npfloat \<Rightarrow> npfloat" where
  "np_arctan (Fin x) = Fin (arctan x)"
| "np_arctan PInf = Fin (pi / 2)"
| "np_arctan NInf = Fin (- (pi / 2))"
| "np_arctan NaN = NaN"

fun np_isfinite :: "npfloat \<Rightarrow> bool" where
  "np_isfinite (Fin x) = True"
| "np_isfinite PInf = False"
| "np_isfinite NInf = False"
| "np_isfinite NaN = False"


section \<open>Vectors, matrices and arrays\<close>

type_synonym vec3 = "real \<times> real \<times> real"

text \<open>A 3x3 matrix is the triple of its rows.\<close>

type_synonym mat3 = "vec3 \<times> vec3 \<times> vec3"

fun vx :: "vec3 \<Rightarrow> real" where "vx (x, y, z) = x"
fun vy :: "vec3 \<Rightarrow> real" where "vy (x, y, z) = y"
fun vz :: "vec3 \<Rightarrow> real" where "vz (x, y, z) = z"

fun vec_dot :: "vec3 \<Rightarrow> vec3 \<Rightarrow> real" where
  "vec_dot (a, b, c) (x, y, z) = a * x + b * y + c * z"

fun vec_add :: "vec3 \<Rightarrow> vec3 \<Rightarrow> vec3" where
  "vec_add (a, b, c) (x, y, z) = (a + x, b + y, c + z)"

fun vec_sub :: "vec3 \<Rightarrow> vec3 \<Rightarrow> vec3" where
  "vec_sub (a, b, c) (x, y, z) = (a - x, b - y, c - z)"

fun vec_scale :: "real \<Rightarrow> vec3 \<Rightarrow> vec3" where
  "vec_scale s (x, y, z) = (s * x, s * y, s * z)"

fun vec_cross :: "vec3 \<Rightarrow> vec3 \<Rightarrow> vec3" where
  "vec_cross (a, b, c) (x, y, z) = (b * z - c * y, c * x - a * z, a * y - b * x)"

definition vec_norm :: "vec3 \<Rightarrow> real" where
  "vec_norm v = sqrt (vec_dot v v)"

text \<open>\<open>rmat.T\<close>.\<close>

fun transpose3 :: "mat3 \<Rightarrow> mat3" where
  "transpose3 ((a, b, c), (d, e, f), (g, h, i)) = ((a, d, g), (b, e, h), (c, f, i))"

text \<open>\<open>np.dot(row, M)\<close> for one row of an n\<times>3 array: the row vector times the matrix.\<close>

fun row_dot :: "vec3 \<Rightarrow> mat3 \<Rightarrow> vec3" where
  "row_dot v (r1, r2, r3) =
     vec_add (vec_scale (vx v) r1) (vec_add (vec_scale (vy v) r2) (vec_scale (vz v) r3))"

text \<open>\<open>np.dot(M, v)\<close> for a column vector.\<close>

fun mat_vec :: "mat3 \<Rightarrow> vec3 \<Rightarrow> vec3" where
  "mat_vec (r1, r2, r3) v = (vec_dot r1 v, vec_dot r2 v, vec_dot r3 v)"

text \<open>
  \<open>np.dot(M, crds)\<close> for a 3\<times>N array \<open>crds\<close>, given as its three rows: the three rows
  of the 3\<times>N product.
\<close>

definition mat_dot_cols ::
  "mat3 \<Rightarrow> real list \<times> real list \<times> real list \<Rightarrow> real list \<times> real list \<times> real list" where
  "mat_dot_cols M crds =
     (case (M, crds) of ((r1, r2, r3), (xs, ys, zs)) \<Rightarrow>
        (map (\<lambda>(x, y, z). vec_dot r1 (x, y, z)) (zip xs (zip ys zs)),
         map (\<lambda>(x, y, z). vec_dot r2 (x, y, z)) (zip xs (zip ys zs)),
         map (\<lambda>(x, y, z). vec_dot r3 (x, y, z)) (zip xs (zip ys zs))))"

text \<open>Adding the column \<open>tvec.reshape(3, 1)\<close> to a 3\<times>N array (broadcast along the rows).\<close>

definition add_column :: "real list \<times> real list \<times> real list \<Rightarrow> vec3 \<Rightarrow> real list \<times> real list \<times> real list" where
  "add_column A t =
     (case (A, t) of ((xs, ys, zs), (a, b, c)) \<Rightarrow>
        (map (\<lambda>x. x + a) xs, map (\<lambda>y. y + b) ys, map (\<lambda>z. z + c) zs))"

text \<open>\<open>A.T\<close> of a 3\<times>N array: its N rows.\<close>

definition transpose_cols :: "real list \<times> real list \<times> real list \<Rightarrow> vec3 list" where
  "transpose_cols A = (case A of (xs, ys, zs) \<Rightarrow> zip xs (zip ys zs))"

text \<open>
  Modelled from the spec: \<open>xfcapi.unitRowVector\<close> (not in this file) gives "the unit
  direction from the lab origin to each transformed point", row by row; a row of norm zero
  has no direction and is left as it is.
\<close>

definition unit_vec :: "vec3 \<Rightarrow> vec3" where
  "unit_vec v = (if vec_norm v > 0 then vec_scale (1 / vec_norm v) v else v)"

definition unitRowVector :: "vec3 list \<Rightarrow> vec3 list" where
  "unitRowVector rows = map unit_vec rows"

text \<open>
  The constants of \<open>hexrd.constants\<close> the module uses: \<open>ct.beam_vec\<close> (the source's
  comment gives its value, \<open>[0, 0, -1]\<close>), \<open>ct.identity_3x3\<close> and \<open>ct.zeros_3\<close>.
\<close>

definition beam_vec :: vec3 where
  "beam_vec = (0, 0, - 1)"

definition identity_3x3 :: mat3 where
  "identity_3x3 = ((1, 0, 0), (0, 1, 0), (0, 0, 1))"

definition zeros_3 :: vec3 where
  "zeros_3 = (0, 0, 0)"

text \<open>
  A 2-D array is the list of its rows. \<open>grid f (r, c)\<close> is the r\<times>c array whose entry
  \<open>(i, j)\<close> is \<open>f i j\<close>; \<open>flatten\<close> is \<open>ndarray.flatten\<close> (row-major).
\<close>

definition grid :: "(nat \<Rightarrow> nat \<Rightarrow> 'a) \<Rightarrow> nat \<times> nat \<Rightarrow> 'a list list" where
  "grid f shp = map (\<lambda>i. map (\<lambda>j. f i j) [0..<snd shp]) [0..<fst shp]"

definition flatten :: "'a list list \<Rightarrow> 'a list" where
  "flatten A = concat A"

datatype error =
    AssertionError | TypeError | ValueError | KeyError | OverflowError
  | OtherError string

text \<open>
  \<open>a.reshape(shape)\<close> of a 1-D array to two dimensions: NumPy raises ValueError unless the
  sizes agree.
\<close>

definition np_reshape :: "'a list \<Rightarrow> nat \<times> nat \<Rightarrow> error + 'a list list" where
  "np_reshape a shp =
     (if length a = fst shp * snd shp
      then Inr (map (\<lambda>i. take (snd shp) (drop (i * snd shp) a)) [0..<fst shp])
      else Inl ValueError)"

text \<open>
  The argument \<open>xy_pts\<close>: one \<open>(x, y)\<close> pair or an n\<times>2 batch of them;
  \<open>np.atleast_2d\<close> turns a single pair into a batch of one row.
\<close>

datatype xy_input = Point "real \<times> real" | Batch "(real \<times> real) list"

fun np_atleast_2d :: "xy_input \<Rightarrow> (real \<times> real) list" where
  "np_atleast_2d (Point p) = [p]"
| "np_atleast_2d (Batch ps) = ps"


section \<open>The collaborators: detector, instrument, geometry primitive\<close>

text \<open>
  Modelled from the spec: the detector model (\<open>hexrd.instrument.PlanarDetector\<close>, not in
  this file) provides "a rotation matrix and translation vector placing it in lab space;
  a per-pixel coordinate grid and matching per-pixel angle grid; a beam-direction vector
  and azimuthal reference vector; an output array shape", and may carry an internal
  (panel-distortion) correction. \<open>pixel_center d i j\<close> is the \<open>(x, y)\<close> centre of pixel
  \<open>(i, j)\<close>.
\<close>

record detector =
  rmat :: mat3
  tvec :: vec3
  bvec :: vec3
  evec :: vec3
  shape :: "nat \<times> nat"
  pixel_center :: "nat \<Rightarrow> nat \<Rightarrow> real \<times> real"
  distortion :: "(real \<times> real \<Rightarrow> real \<times> real) option"

text \<open>
  Modelled from the spec: \<open>det.pixel_coords\<close>, the pair \<open>(py, px)\<close> of per-pixel
  coordinate grids, each shaped like the detector's pixel grid.
\<close>

definition pixel_coords :: "detector \<Rightarrow> real list list \<times> real list list" where
  "pixel_coords d =
     (grid (\<lambda>i j. snd (pixel_center d i j)) (shape d),
      grid (\<lambda>i j. fst (pixel_center d i j)) (shape d))"

text \<open>
  The methods and functions whose code is outside \<open>phutil.py\<close> are parameters of the
  model:
  \<^item> \<open>cart_to_angles d p\<close>: \<open>d.cart_to_angles(xy, rmat_s=None, tvec_s=None, tvec_c=None,
    apply_distortion=True)\<close>, the \<open>(2\<theta>, \<eta>)\<close> of one row;
  \<^item> \<open>pixel_angles d i j\<close>: the \<open>(2\<theta>, \<eta>)\<close> that \<open>d.pixel_angles()\<close> holds for pixel
    \<open>(i, j)\<close>;
  \<^item> \<open>detectorXYToGvec p rmat_d rmat_s tvec_d tvec_s tvec_c beamVec etaVec\<close>: the
    \<open>(2\<theta>, \<eta>)\<close> that \<open>xfcapi.detectorXYToGvec\<close> returns for the single point \<open>p\<close>.
\<close>

record collaborators =
  cart_to_angles :: "detector \<Rightarrow> real \<times> real \<Rightarrow> real \<times> real"
  pixel_angles :: "detector \<Rightarrow> nat \<Rightarrow> nat \<Rightarrow> real \<times> real"
  detectorXYToGvec ::
    "real \<times> real \<Rightarrow> mat3 \<Rightarrow> mat3 \<Rightarrow> vec3 \<Rightarrow> vec3 \<Rightarrow> vec3 \<Rightarrow> vec3 \<Rightarrow> vec3 \<Rightarrow> real \<times> real"

text \<open>\<open>det.pixel_angles()\<close>: the pair \<open>(ptth, peta)\<close> of per-pixel angle grids.\<close>

definition pixel_angles_grids :: "collaborators \<Rightarrow> detector \<Rightarrow> real list list \<times> real list list" where
  "pixel_angles_grids api d =
     (grid (\<lambda>i j. fst (pixel_angles api d i j)) (shape d),
      grid (\<lambda>i j. snd (pixel_angles api d i j)) (shape d))"

text \<open>
  Modelled from the spec: the instrument model (\<open>hexrd.instrument.HEDMInstrument\<close>), "a
  keyed collection of detector models sharing a beam vector, azimuthal reference vector,
  and source-to-pinhole distance". The dictionary \<open>detectors\<close> is the list of its items,
  in iteration order.
\<close>

record instrument =
  detectors :: "(string \<times> detector) list"
  beam_vector :: vec3
  eta_vector :: vec3
  source_distance :: real

text \<open>
  Modelled from the spec: assigning \<open>instr.beam_vector\<close> gives the "alternate-beam-vector
  copy of the entire instrument", every detector of which has the new beam vector.
\<close>

definition set_beam_vector :: "instrument \<Rightarrow> vec3 \<Rightarrow> instrument" where
  "set_beam_vector instr b =
     instr\<lparr>beam_vector := b,
           detectors := map (\<lambda>(k, d). (k, d\<lparr>bvec := b\<rparr>)) (detectors instr)\<rparr>"


section \<open>The sample-layer model\<close>

text \<open>
  The array expression \<open>np.arctan(sin_tthn/(source_distance*cos_beta/zs - cos_tthn))\<close> of
  lines 171 and 223-224; \<open>cos_beta\<close>, \<open>cos_tthn\<close> and \<open>sin_tthn\<close> are 1-D arrays of one
  length.
\<close>

definition arctan_term :: "real \<Rightarrow> real \<Rightarrow> real list \<Rightarrow> real list \<Rightarrow> real list \<Rightarrow> npfloat list" where
  "arctan_term sd zs sin_tthn cos_beta cos_tthn =
     map np_arctan
       (map2 np_div (map Fin sin_tthn)
          (map2 np_sub
             (map (\<lambda>c. np_div (Fin (sd * c)) (Fin zs)) cos_beta)
             (map Fin cos_tthn)))"

definition tth_corr_sample_layer ::
  "collaborators \<Rightarrow> detector \<Rightarrow> xy_input \<Rightarrow> real \<Rightarrow> real \<Rightarrow> real \<Rightarrow> real \<Rightarrow> bool
     \<Rightarrow> (npfloat \<times> real) list" where
  "tth_corr_sample_layer api det xy layer_standoff layer_thickness pinhole_thickness
       source_dist return_nominal =
     (let xy_pts = np_atleast_2d xy;
          zs = layer_standoff + 0.5 * layer_thickness + 0.5 * pinhole_thickness;
          ref_angs = map (cart_to_angles api det) xy_pts;
          ref_tth = map fst ref_angs;
          crds = map (\<lambda>(x, y). (x, y, 0)) xy_pts;
          dhats = unitRowVector
                    (map (\<lambda>c. vec_add (row_dot c (transpose3 (rmat det))) (tvec det)) crds);
          cos_beta = map (\<lambda>d. - vz d) dhats;
          cos_tthn = map cos ref_tth;
          sin_tthn = map sin ref_tth;
          tth_corr = arctan_term source_dist zs sin_tthn cos_beta cos_tthn
      in if return_nominal
         then zip (map2 np_sub (map Fin ref_tth) tth_corr) (map snd ref_angs)
         else zip (map np_neg tth_corr) (map snd ref_angs))"


subsection \<open>The rounding of the floating-point operations\<close>

text \<open>
  Whether a denominator of line 171 is exactly zero is decided by the rounding of the
  operations before it. The evaluator is therefore given a second time, with the rounding
  explicit and arbitrary:
  \<^item> \<open>rnd\<close> rounds the exact result of \<open>+\<close>, \<open>-\<close>, \<open>*\<close> and \<open>/\<close> on finite operands
    (a result may be rounded to zero; overflow to an infinity is not modelled);
  \<^item> \<open>fsin\<close>, \<open>fcos\<close> and \<open>farctan\<close> are \<open>np.sin\<close>, \<open>np.cos\<close> and \<open>np.arctan\<close> on
    finite arguments;
  \<^item> \<open>fdhat rmat tvec p\<close> is the row that lines 164-167 compute for the point \<open>p\<close>
    (the order of the additions in \<open>np.dot\<close> and the rounding inside
    \<open>xfcapi.unitRowVector\<close> are those of the libraries).
  The special values combine as before; \<open>np.arctan\<close> of an infinity is the double nearest
  to \<open>\<plusminus>\<pi>/2\<close>.
\<close>

record float_arith =
  rnd :: "real \<Rightarrow> real"
  fsin :: "real \<Rightarrow> real"
  fcos :: "real \<Rightarrow> real"
  farctan :: "real \<Rightarrow> real"
  fdhat :: "mat3 \<Rightarrow> vec3 \<Rightarrow> real \<times> real \<Rightarrow> vec3"

fun rounded :: "(real \<Rightarrow> real) \<Rightarrow> npfloat \<Rightarrow> npfloat" where
  "rounded r (Fin x) = Fin (r x)"
| "rounded r PInf = PInf"
| "rounded r NInf = NInf"
| "rounded r NaN = NaN"

fun np_arctan_rounded :: "float_arith \<Rightarrow> npfloat \<Rightarrow> npfloat" where
  "np_arctan_rounded fa (Fin x) = Fin (farctan fa x)"
| "np_arctan_rounded fa PInf = Fin (rnd fa (pi / 2))"
| "np_arctan_rounded fa NInf = Fin (- rnd fa (pi / 2))"
| "np_arctan_rounded fa NaN = NaN"

text \<open>Line 171, operation by operation.\<close>

definition arctan_term_rounded ::
  "float_arith \<Rightarrow> real \<Rightarrow> real \<Rightarrow> real list \<Rightarrow> real list \<Rightarrow> real list \<Rightarrow> npfloat list" where
  "arctan_term_rounded fa sd zs sin_tthn cos_beta cos_tthn =
     map (np_arctan_rounded fa)
       (map2 (\<lambda>s d. rounded (rnd fa) (np_div s d)) (map Fin sin_tthn)
          (map2 (\<lambda>q c. rounded (rnd fa) (np_sub q c))
             (map (\<lambda>c. rounded (rnd fa) (np_div (Fin (rnd fa (sd * c))) (Fin zs))) cos_beta)
             (map Fin cos_tthn)))"

definition tth_corr_sample_layer_rounded ::
  "float_arith \<Rightarrow> collaborators \<Rightarrow> detector \<Rightarrow> xy_input \<Rightarrow> real \<Rightarrow> real \<Rightarrow> real \<Rightarrow> real \<Rightarrow> bool
     \<Rightarrow> (npfloat \<times> real) list" where
  "tth_corr_sample_layer_rounded fa api det xy layer_standoff layer_thickness pinhole_thickness
       source_dist return_nominal =
     (let xy_pts = np_atleast_2d xy;
          zs = rnd fa (rnd fa (layer_standoff + rnd fa (0.5 * layer_thickness))
                         + rnd fa (0.5 * pinhole_thickness));
          ref_angs = map (cart_to_angles api det) xy_pts;
          ref_tth = map fst ref_angs;
          dhats = map (fdhat fa (rmat det) (tvec det)) xy_pts;
          cos_beta = map (\<lambda>d. - vz d) dhats;
          cos_tthn = map (fcos fa) ref_tth;
          sin_tthn = map (fsin fa) ref_tth;
          tth_corr = arctan_term_rounded fa source_dist zs sin_tthn cos_beta cos_tthn
      in if return_nominal
         then zip (map2 (\<lambda>t c. rounded (rnd fa) (np_sub t c)) (map Fin ref_tth) tth_corr)
                (map snd ref_angs)
         else zip (map np_neg tth_corr) (map snd ref_angs))"

text \<open>Exact arithmetic: nothing is rounded, and lines 164-167 are computed in the reals.\<close>

definition exact_arith :: float_arith where
  "exact_arith =
     \<lparr>rnd = (\<lambda>x. x), fsin = sin, fcos = cos, farctan = arctan,
      fdhat = (\<lambda>rm tv p. unit_vec (vec_add (row_dot (fst p, snd p, 0) (transpose3 rm)) tv))\<rparr>"


section \<open>The pinhole model\<close>

text \<open>
  The loop of lines 280-291 and 338-349, over \<open>enumerate(zip(points, ref_eta))\<close>: each
  point gets its own ray origin, and the primitive's \<open>2\<theta>\<close> is stored at its index. The
  two occurrences differ in the beam and azimuth-reference vectors they pass only. The
  indices are those of \<open>enumerate\<close>, in range of the array.
\<close>

fun pinhole_loop ::
  "collaborators \<Rightarrow> mat3 \<Rightarrow> vec3 \<Rightarrow> vec3 \<Rightarrow> vec3 \<Rightarrow> real \<Rightarrow> real
     \<Rightarrow> (nat \<times> (real \<times> real) \<times> real) list \<Rightarrow> real list \<Rightarrow> real list" where
  "pinhole_loop api rm tv bv ev pinhole_thickness pinhole_radius [] pin_tth = pin_tth"
| "pinhole_loop api rm tv bv ev pinhole_thickness pinhole_radius ((i, pxy, reta) # rest) pin_tth =
     (let origin = vec_scale (- pinhole_radius) (cos reta, sin reta, 0.5 * pinhole_thickness);
          angs = detectorXYToGvec api pxy rm identity_3x3 tv zeros_3 origin bv ev
      in pinhole_loop api rm tv bv ev pinhole_thickness pinhole_radius rest
           (pin_tth[i := fst angs]))"

definition tth_corr_pinhole ::
  "collaborators \<Rightarrow> detector \<Rightarrow> xy_input \<Rightarrow> real \<Rightarrow> real \<Rightarrow> bool \<Rightarrow> (real \<times> real) list" where
  "tth_corr_pinhole api det xy pinhole_thickness pinhole_radius return_nominal =
     (let xy_pts = np_atleast_2d xy;
          npts = length xy_pts;
          cp_det = det\<lparr>bvec := beam_vec\<rparr>;
          ref_angs = map (cart_to_angles api cp_det) xy_pts;
          ref_eta = map snd ref_angs;
          nom_angs = map (cart_to_angles api det) xy_pts;
          nom_tth = map fst nom_angs;
          pin_tth = pinhole_loop api (rmat det) (tvec det) (bvec det) (evec det)
                      pinhole_thickness pinhole_radius
                      (enumerate 0 (zip xy_pts ref_eta)) (replicate npts 0);
          tth_corr = map2 (-) pin_tth nom_tth
      in if return_nominal
         then zip (map2 (-) nom_tth tth_corr) (map snd nom_angs)
         else zip (map uminus tth_corr) (map snd nom_angs))"


section \<open>The map evaluators\<close>

text \<open>
  A dictionary is the list of its items, in insertion order. \<open>dict.fromkeys(d)\<close> has the
  keys of the dictionary \<open>d\<close>, each with the value \<open>None\<close>; \<open>d[k] = v\<close> replaces the value
  of a key that is there and appends a new key; \<open>d[k]\<close> raises KeyError for a missing key.
\<close>

definition dict_fromkeys :: "('k \<times> 'a) list \<Rightarrow> ('k \<times> 'v option) list" where
  "dict_fromkeys d = map (\<lambda>(k, _). (k, None)) d"

fun dict_setitem :: "'k \<Rightarrow> 'v \<Rightarrow> ('k \<times> 'v) list \<Rightarrow> ('k \<times> 'v) list" where
  "dict_setitem k v [] = [(k, v)]"
| "dict_setitem k v ((k', v') # rest) =
     (if k' = k then (k, v) # rest else (k', v') # dict_setitem k v rest)"

definition dict_getitem :: "('k \<times> 'v) list \<Rightarrow> 'k \<Rightarrow> error + 'v" where
  "dict_getitem d k = (case map_of d k of None \<Rightarrow> Inl KeyError | Some v \<Rightarrow> Inr v)"

text \<open>The body of the loop of lines 213-225, for the items that are still to visit.\<close>

fun sample_layer_items ::
  "collaborators \<Rightarrow> instrument \<Rightarrow> real \<Rightarrow> (string \<times> detector) list
     \<Rightarrow> (string \<times> npfloat list list option) list
     \<Rightarrow> error + (string \<times> npfloat list list option) list" where
  "sample_layer_items api instr zs [] tth_corr = Inr tth_corr"
| "sample_layer_items api instr zs ((det_key, det) # rest) tth_corr =
     (let ref_ptth = fst (pixel_angles_grids api det);
          py = fst (pixel_coords det);
          px = snd (pixel_coords det);
          crds = (flatten px, flatten py, replicate (length (flatten px)) 0);
          dhats = unitRowVector
                    (transpose_cols (add_column (mat_dot_cols (rmat det) crds) (tvec det)));
          cos_beta = map (\<lambda>d. - vz d) dhats;
          cos_tthn = map cos (flatten ref_ptth);
          sin_tthn = map sin (flatten ref_ptth)
      in case np_reshape (arctan_term (source_distance instr) zs sin_tthn cos_beta cos_tthn)
                (shape det) of
           Inl e \<Rightarrow> Inl e
         | Inr field \<Rightarrow>
             sample_layer_items api instr zs rest (dict_setitem det_key (Some field) tth_corr))"

definition tth_corr_map_sample_layer ::
  "collaborators \<Rightarrow> instrument \<Rightarrow> real \<Rightarrow> real \<Rightarrow> real
     \<Rightarrow> error + (string \<times> npfloat list list option) list" where
  "tth_corr_map_sample_layer api instr layer_standoff layer_thickness pinhole_thickness =
     (let zs = layer_standoff + 0.5 * layer_thickness + 0.5 * pinhole_thickness;
          tth_corr = dict_fromkeys (detectors instr)
      in sample_layer_items api instr zs (detectors instr) tth_corr)"

text \<open>Elementwise difference of two 2-D arrays of one shape.\<close>

definition arr2_sub :: "real list list \<Rightarrow> real list list \<Rightarrow> real list list" where
  "arr2_sub A B = map2 (\<lambda>a b. map2 (-) a b) A B"

text \<open>The body of the loop of lines 327-350, for the items that are still to visit.\<close>

fun pinhole_items ::
  "collaborators \<Rightarrow> instrument \<Rightarrow> instrument \<Rightarrow> real \<Rightarrow> real \<Rightarrow> (string \<times> detector) list
     \<Rightarrow> (string \<times> real list list option) list
     \<Rightarrow> error + (string \<times> real list list option) list" where
  "pinhole_items api instr cp_instr pinhole_thickness pinhole_radius [] tth_corr = Inr tth_corr"
| "pinhole_items api instr cp_instr pinhole_thickness pinhole_radius ((det_key, det) # rest)
       tth_corr =
     (case dict_getitem (detectors cp_instr) det_key of
        Inl e \<Rightarrow> Inl e
      | Inr cp_det \<Rightarrow>
         (let ref_peta = flatten (snd (pixel_angles_grids api cp_det));
              nom_ptth = fst (pixel_angles_grids api det);
              dpy = fst (pixel_coords det);
              dpx = snd (pixel_coords det);
              pcrds = zip (flatten dpx) (flatten dpy);
              new_ptth = pinhole_loop api (rmat det) (tvec det)
                           (beam_vector instr) (eta_vector instr)
                           pinhole_thickness pinhole_radius
                           (enumerate 0 (zip pcrds ref_peta)) (replicate (length ref_peta) 0)
          in case np_reshape new_ptth (shape det) of
               Inl e \<Rightarrow> Inl e
             | Inr new_grid \<Rightarrow>
                 pinhole_items api instr cp_instr pinhole_thickness pinhole_radius rest
                   (dict_setitem det_key (Some (arr2_sub new_grid nom_ptth)) tth_corr)))"

definition tth_corr_map_pinhole ::
  "collaborators \<Rightarrow> instrument \<Rightarrow> real \<Rightarrow> real
     \<Rightarrow> error + (string \<times> real list list option) list" where
  "tth_corr_map_pinhole api instr pinhole_thickness pinhole_radius =
     (let cp_instr = set_beam_vector instr beam_vec;
          tth_corr = dict_fromkeys (detectors instr)
      in pinhole_items api instr cp_instr pinhole_thickness pinhole_radius
           (detectors instr) tth_corr)"


section \<open>The parameter-holder wrappers\<close>

text \<open>
  The Python values a caller can hand to a constructor or a setter: \<open>None\<close>, a bool, an
  int, a float (finite, infinite or not-a-number), a complex number, a string, a bytes
  object, an instance of \<open>PlanarDetector\<close> (or of a subclass), or an instance of any
  other class. Of another
  class the model keeps the name and what \<open>float\<close> finds on it: no conversion method, a
  \<open>__float__\<close> method (with the float it returns or the exception it raises; returning
  anything but a float is a TypeError), or an \<open>__index__\<close> method only (with the int it
  returns or the exception it raises). \<open>decimal.Decimal\<close>, \<open>fractions.Fraction\<close> and the
  NumPy scalars are classes with a \<open>__float__\<close> method.
\<close>

datatype float_slot =
    NoConversion
  | FloatMethod "error + npfloat"
  | IndexMethod "error + int"

datatype pyval =
    PyNone
  | PyBool bool
  | PyInt int
  | PyFloat npfloat
  | PyComplex real real
  | PyStr string
  | PyBytes string
  | PyDetector detector
  | PyObject string float_slot

text \<open>\<open>isinstance(x, detector_classes)\<close> with \<open>detector_classes = (PlanarDetector, )\<close>.\<close>

fun isinstance_detector :: "pyval \<Rightarrow> bool" where
  "isinstance_detector (PyDetector d) = True"
| "isinstance_detector _ = False"

text \<open>
  The conversion of a Python int to a float: the int is rounded to the nearest double
  (here: kept as the real it is), and OverflowError is raised when that is beyond the
  largest double \<open>2^1024 - 2^971\<close>, that is from \<open>2^1024 - 2^970\<close> on.
\<close>

definition float_int_limit :: int where
  "float_int_limit = 2 ^ 1024 - 2 ^ 970"

definition int_to_float :: "int \<Rightarrow> error + npfloat" where
  "int_to_float i =
     (if \<bar>i\<bar> < float_int_limit then Inr (Fin (of_int i)) else Inl OverflowError)"

text \<open>
  Python's \<open>float(x)\<close>. A float is returned as it is; an int and a bool are converted; a
  string or a bytes object is converted when the interpreter's float-literal parser accepts
  it (the parser is the parameter \<open>parse\<close>) and raises ValueError otherwise; an object with a \<open>__float__\<close>
  method gives what the method gives; an object with an \<open>__index__\<close> method only gives the
  conversion of that int; every other object, also \<open>None\<close>, a complex number and a
  detector (the detector classes define no conversion), raises TypeError.
\<close>

fun py_float :: "(string \<Rightarrow> npfloat option) \<Rightarrow> pyval \<Rightarrow> error + npfloat" where
  "py_float parse (PyFloat v) = Inr v"
| "py_float parse (PyInt i) = int_to_float i"
| "py_float parse (PyBool b) = Inr (Fin (if b then 1 else 0))"
| "py_float parse (PyStr s) = (case parse s of Some v \<Rightarrow> Inr v | None \<Rightarrow> Inl ValueError)"
| "py_float parse (PyBytes s) = (case parse s of Some v \<Rightarrow> Inr v | None \<Rightarrow> Inl ValueError)"
| "py_float parse (PyObject c (FloatMethod r)) = r"
| "py_float parse (PyObject c (IndexMethod (Inr i))) = int_to_float i"
| "py_float parse (PyObject c (IndexMethod (Inl e))) = Inl e"
| "py_float parse (PyObject c NoConversion) = Inl TypeError"
| "py_float parse PyNone = Inl TypeError"
| "py_float parse (PyComplex re im) = Inl TypeError"
| "py_float parse (PyDetector d) = Inl TypeError"

record SampleLayerDistortion =
  sl_detector :: pyval
  sl_standoff :: pyval
  sl_thickness :: pyval
  sl_ph_thickness :: pyval
  sl_source_dist :: pyval

record PinholeDistortion =
  ph_detector :: pyval
  ph_ph_thickness :: pyval
  ph_ph_radius :: pyval

text \<open>The two \<open>__init__\<close> methods: each argument is stored as it is given.\<close>

definition SampleLayerDistortion_init ::
  "pyval \<Rightarrow> pyval \<Rightarrow> pyval \<Rightarrow> pyval \<Rightarrow> pyval \<Rightarrow> SampleLayerDistortion" where
  "SampleLayerDistortion_init det layer_standoff layer_thickness pinhole_thickness source_dist =
     \<lparr>sl_detector = det, sl_standoff = layer_standoff, sl_thickness = layer_thickness,
      sl_ph_thickness = pinhole_thickness, sl_source_dist = source_dist\<rparr>"

definition PinholeDistortion_init :: "pyval \<Rightarrow> pyval \<Rightarrow> pyval \<Rightarrow> PinholeDistortion" where
  "PinholeDistortion_init det pinhole_thickness pinhole_radius =
     \<lparr>ph_detector = det, ph_ph_thickness = pinhole_thickness, ph_ph_radius = pinhole_radius\<rparr>"

text \<open>
  A property setter returns the exception it raised, if any, and the object as it is after
  the assignment statement. The \<open>assert\<close> of the detector setters raises AssertionError
  before the attribute is written; \<open>float(x)\<close> raises before the attribute is written.
\<close>

definition sl_set_detector ::
  "SampleLayerDistortion \<Rightarrow> pyval \<Rightarrow> error option \<times> SampleLayerDistortion" where
  "sl_set_detector self x =
     (if isinstance_detector x then (None, self\<lparr>sl_detector := x\<rparr>)
      else (Some AssertionError, self))"

definition sl_set_standoff ::
  "(string \<Rightarrow> npfloat option) \<Rightarrow> SampleLayerDistortion \<Rightarrow> pyval
     \<Rightarrow> error option \<times> SampleLayerDistortion" where
  "sl_set_standoff parse self x =
     (case py_float parse x of
        Inl e \<Rightarrow> (Some e, self)
      | Inr r \<Rightarrow> (None, self\<lparr>sl_standoff := PyFloat r\<rparr>))"

definition sl_set_thickness ::
  "(string \<Rightarrow> npfloat option) \<Rightarrow> SampleLayerDistortion \<Rightarrow> pyval
     \<Rightarrow> error option \<times> SampleLayerDistortion" where
  "sl_set_thickness parse self x =
     (case py_float parse x of
        Inl e \<Rightarrow> (Some e, self)
      | Inr r \<Rightarrow> (None, self\<lparr>sl_thickness := PyFloat r\<rparr>))"

definition sl_set_ph_thickness ::
  "(string \<Rightarrow> npfloat option) \<Rightarrow> SampleLayerDistortion \<Rightarrow> pyval
     \<Rightarrow> error option \<times> SampleLayerDistortion" where
  "sl_set_ph_thickness parse self x =
     (case py_float parse x of
        Inl e \<Rightarrow> (Some e, self)
      | Inr r \<Rightarrow> (None, self\<lparr>sl_ph_thickness := PyFloat r\<rparr>))"

definition sl_set_source_dist ::
  "(string \<Rightarrow> npfloat option) \<Rightarrow> SampleLayerDistortion \<Rightarrow> pyval
     \<Rightarrow> error option \<times> SampleLayerDistortion" where
  "sl_set_source_dist parse self x =
     (case py_float parse x of
        Inl e \<Rightarrow> (Some e, self)
      | Inr r \<Rightarrow> (None, self\<lparr>sl_source_dist := PyFloat r\<rparr>))"

definition ph_set_detector ::
  "PinholeDistortion \<Rightarrow> pyval \<Rightarrow> error option \<times> PinholeDistortion" where
  "ph_set_detector self x =
     (if isinstance_detector x then (None, self\<lparr>ph_detector := x\<rparr>)
      else (Some AssertionError, self))"

definition ph_set_ph_thickness ::
  "(string \<Rightarrow> npfloat option) \<Rightarrow> PinholeDistortion \<Rightarrow> pyval
     \<Rightarrow> error option \<times> PinholeDistortion" where
  "ph_set_ph_thickness parse self x =
     (case py_float parse x of
        Inl e \<Rightarrow> (Some e, self)
      | Inr r \<Rightarrow> (None, self\<lparr>ph_ph_thickness := PyFloat r\<rparr>))"

definition ph_set_ph_radius ::
  "(string \<Rightarrow> npfloat option) \<Rightarrow> PinholeDistortion \<Rightarrow> pyval
     \<Rightarrow> error option \<times> PinholeDistortion" where
  "ph_set_ph_radius parse self x =
     (case py_float parse x of
        Inl e \<Rightarrow> (Some e, self)
      | Inr r \<Rightarrow> (None, self\<lparr>ph_ph_radius := PyFloat r\<rparr>))"


section \<open>A planar detector in the geometry of the spec\<close>

text \<open>\<open>np.arctan2(y, x)\<close> for finite arguments.\<close>

definition np_arctan2 :: "real \<Rightarrow> real \<Rightarrow> real" where
  "np_arctan2 y x =
     (if 0 < x then arctan (y / x)
      else if x < 0 then (if 0 \<le> y then arctan (y / x) + pi else arctan (y / x) - pi)
      else if 0 < y then pi / 2
      else if y < 0 then - (pi / 2)
      else 0)"

text \<open>
  Modelled from the spec: the ray-to-angle geometry primitive (\<open>xfcapi.detectorXYToGvec\<close>,
  not in this file), "given a detector-plane point, the detector's orientation/position, a
  ray origin offset, and beam/azimuth reference vectors, returns the diffraction angle
  [...] for a ray emitted from that offset origin instead of the nominal origin". The point
  is placed in lab space, the ray runs from the origin offset \<open>tvec_s + rmat_s tvec_c\<close> to
  it, \<open>2\<theta>\<close> is "the angle between the incident beam and a scattered ray", and \<open>\<eta>\<close> is
  "the angle about the beam axis", measured from the azimuthal reference vector.
\<close>

definition planar_xy_to_angles ::
  "real \<times> real \<Rightarrow> mat3 \<Rightarrow> mat3 \<Rightarrow> vec3 \<Rightarrow> vec3 \<Rightarrow> vec3 \<Rightarrow> vec3 \<Rightarrow> vec3 \<Rightarrow> real \<times> real" where
  "planar_xy_to_angles p rmat_d rmat_s tvec_d tvec_s tvec_c beamVec etaVec =
     (let point = vec_add (mat_vec rmat_d (fst p, snd p, 0)) tvec_d;
          origin = vec_add tvec_s (mat_vec rmat_s tvec_c);
          dhat = unit_vec (vec_sub point origin);
          bhat = unit_vec beamVec;
          ze = vec_scale (- 1) bhat;
          ye = unit_vec (vec_cross ze (unit_vec etaVec));
          xe = vec_cross ye ze
      in (arccos (vec_dot bhat dhat), np_arctan2 (vec_dot dhat ye) (vec_dot dhat xe)))"

text \<open>
  Modelled from the spec: the detector's "conversion of detector-plane Cartesian coordinates
  to polar diffraction angles (2\<theta>, \<eta>) given a sample rotation, sample translation, and
  crystal translation, optionally applying its own internal (e.g. panel-distortion)
  correction", called as \<open>phutil.py\<close> calls it: the distortion is requested, the sample
  frame is the identity and the crystal translation is zero; and its "matching per-pixel
  angle grid", the same conversion at the pixel centres.
\<close>

definition planar_cart_to_angles :: "detector \<Rightarrow> real \<times> real \<Rightarrow> real \<times> real" where
  "planar_cart_to_angles d p =
     planar_xy_to_angles (case distortion d of None \<Rightarrow> p | Some f \<Rightarrow> f p)
       (rmat d) identity_3x3 (tvec d) zeros_3 zeros_3 (bvec d) (evec d)"

definition planar :: collaborators where
  "planar =
     \<lparr>cart_to_angles = planar_cart_to_angles,
      pixel_angles = (\<lambda>d i j. planar_cart_to_angles d (pixel_center d i j)),
      detectorXYToGvec = planar_xy_to_angles\<rparr>"

text \<open>
  A detector of two pixels, centred at \<open>(0, 0)\<close> and \<open>(3, 0)\<close>, facing the beam four
  units downstream of the pinhole, with no internal distortion; the same detector with a
  distortion that shifts every point by three units along x; and an instrument that holds
  the first one under the key \<open>det1\<close>.
\<close>

definition demo_det :: detector where
  "demo_det =
     \<lparr>rmat = identity_3x3, tvec = (0, 0, - 4), bvec = (0, 0, - 1), evec = (1, 0, 0),
      shape = (1, 2), pixel_center = (\<lambda>i j. (3 * real j, 0)), distortion = None\<rparr>"


definition demo_instr :: "real \<Rightarrow> instrument" where
  "demo_instr sd =
     \<lparr>detectors = [(''det1'', demo_det)], beam_vector = (0, 0, - 1), eta_vector = (1, 0, 0),
      source_distance = sd\<rparr>"


text \<open>
  A stand-in for the interpreter's float-literal parser in the examples below, which use
  it on the strings \<open>2.5\<close> and \<open>wide\<close> only: the first spells a number, the second does
  not.
\<close>

definition literal_parser :: "string \<Rightarrow> npfloat option" where
  "literal_parser s = (if s = ''2.5'' then Some (Fin (5 / 2)) else None)"


section \<open>The entries of the correction fields\<close>

text \<open>
  Shorthand for the statements about the map evaluators: the entry that lines 214-225
  compute for pixel \<open>(i, j)\<close> of a detector, and the entry that lines 328-350 compute for
  it (\<open>b\<close> and \<open>e\<close> are the beam and azimuth-reference vectors handed to the primitive).
\<close>

abbreviation layer_pixel ::
  "collaborators \<Rightarrow> detector \<Rightarrow> real \<Rightarrow> real \<Rightarrow> nat \<Rightarrow> nat \<Rightarrow> npfloat" where
  "layer_pixel api det sd zs i j \<equiv>
     np_arctan (np_div (Fin (sin (fst (pixel_angles api det i j))))
       (np_sub
          (np_div
             (Fin (sd * - vz (unit_vec (vec_add
                (mat_vec (rmat det) (fst (pixel_center det i j), snd (pixel_center det i j), 0))
                (tvec det)))))
             (Fin zs))
          (Fin (cos (fst (pixel_angles api det i j))))))"

abbreviation pinhole_pixel ::
  "collaborators \<Rightarrow> detector \<Rightarrow> vec3 \<Rightarrow> vec3 \<Rightarrow> real \<Rightarrow> real \<Rightarrow> nat \<Rightarrow> nat \<Rightarrow> real" where
  "pinhole_pixel api det b e t r i j \<equiv>
     fst (detectorXYToGvec api (pixel_center det i j) (rmat det) identity_3x3 (tvec det) zeros_3
            (vec_scale (- r)
               (cos (snd (pixel_angles api (det\<lparr>bvec := beam_vec\<rparr>) i j)),
                sin (snd (pixel_angles api (det\<lparr>bvec := beam_vec\<rparr>) i j)),
                0.5 * t))
            b e)
     - fst (pixel_angles api det i j)"


section \<open>Arithmetic, array and loop lemmas\<close>

lemma np_neg_neg: "np_neg (np_neg a) = a"
  by (cases a) simp_all

lemma np_sub_add_neg: "np_sub a b = np_add a (np_neg b)"
  by (cases a; cases b) simp_all

lemma length_arctan_term:
  "length (arctan_term sd zs s cb c) = min (length s) (min (length cb) (length c))"
  by (simp add: arctan_term_def)

lemma nth_arctan_term:
  assumes "i < length s" "i < length cb" "i < length c"
  shows "arctan_term sd zs s cb c ! i =
           np_arctan (np_div (Fin (s ! i)) (np_sub (np_div (Fin (sd * cb ! i)) (Fin zs)) (Fin (c ! i))))"
  using assms by (simp add: arctan_term_def)

lemma arctan_term_map:
  "arctan_term sd zs (map f xs) (map g xs) (map h xs) =
     map (\<lambda>x. np_arctan (np_div (Fin (f x)) (np_sub (np_div (Fin (sd * g x)) (Fin zs)) (Fin (h x))))) xs"
  by (rule nth_equalityI) (simp_all add: length_arctan_term nth_arctan_term)

lemma row_dot_transpose3: "row_dot c (transpose3 M) = mat_vec M c"
  by (cases M rule: prod_cases3; cases c rule: prod_cases3)
     (auto simp: algebra_simps split: prod.splits)

lemma pinhole_loop_length:
  "length (pinhole_loop api rm tv bv ev t r items acc) = length acc"
  by (induction items arbitrary: acc) (auto simp: Let_def)

lemma pinhole_loop_enumerate:
  "length acc = k + length zs \<Longrightarrow>
   pinhole_loop api rm tv bv ev t r (enumerate k zs) acc =
     take k acc @
     map (\<lambda>(pxy, reta). fst (detectorXYToGvec api pxy rm identity_3x3 tv zeros_3
            (vec_scale (- r) (cos reta, sin reta, 0.5 * t)) bv ev)) zs"
proof (induction zs arbitrary: k acc)
  case Nil
  then show ?case by simp
next
  case (Cons z zs)
  obtain pxy reta where z: "z = (pxy, reta)" by (cases z)
  let ?v = "fst (detectorXYToGvec api pxy rm identity_3x3 tv zeros_3
            (vec_scale (- r) (cos reta, sin reta, 0.5 * t)) bv ev)"
  have len: "length (acc[k := ?v]) = Suc k + length zs" using Cons.prems by simp
  have k: "k < length acc" using Cons.prems by simp
  have tk: "take (Suc k) (acc[k := ?v]) = take k acc @ [?v]"
    using k by (simp add: take_Suc_conv_app_nth)
  show ?case
    using Cons.IH [OF len] tk by (simp add: z Let_def)
qed

lemma pinhole_loop_zeros:
  "pinhole_loop api rm tv bv ev t r (enumerate 0 zs) (replicate (length zs) 0) =
     map (\<lambda>(pxy, reta). fst (detectorXYToGvec api pxy rm identity_3x3 tv zeros_3
            (vec_scale (- r) (cos reta, sin reta, 0.5 * t)) bv ev)) zs"
  using pinhole_loop_enumerate [of "replicate (length zs) 0" 0 zs] by simp

lemma length_grid: "length (grid f shp) = fst shp"
  by (simp add: grid_def)

lemma nth_grid: "i < fst shp \<Longrightarrow> grid f shp ! i = map (f i) [0..<snd shp]"
  by (simp add: grid_def)

lemma nth_nth_grid: "i < fst shp \<Longrightarrow> j < snd shp \<Longrightarrow> grid f shp ! i ! j = f i j"
  by (simp add: grid_def)

lemma grid_row_length: "row \<in> set (grid f shp) \<Longrightarrow> length row = snd shp"
  by (auto simp: grid_def)

lemma map_flatten_grid: "map h (flatten (grid f shp)) = flatten (grid (\<lambda>i j. h (f i j)) shp)"
  by (simp add: flatten_def grid_def map_concat o_def)

lemma zip_concat_rows:
  "(\<And>i. i \<in> set ns \<Longrightarrow> length (F i) = length (G i)) \<Longrightarrow>
   zip (concat (map F ns)) (concat (map G ns)) = concat (map (\<lambda>i. zip (F i) (G i)) ns)"
  by (induction ns) simp_all

lemma zip_flatten_grid:
  "zip (flatten (grid f shp)) (flatten (grid g shp)) = flatten (grid (\<lambda>i j. (f i j, g i j)) shp)"
  by (simp add: flatten_def grid_def zip_concat_rows zip_map_map zip_same_conv_map o_def)

lemma length_concat_uniform:
  "(\<And>row. row \<in> set A \<Longrightarrow> length row = c) \<Longrightarrow> length (concat A) = length A * c"
  by (induction A) simp_all

lemma length_flatten_grid: "length (flatten (grid f shp)) = fst shp * snd shp"
  by (simp add: flatten_def length_concat_uniform [where c = "snd shp"] grid_row_length length_grid)

lemma take_drop_concat_uniform:
  "(\<And>row. row \<in> set A \<Longrightarrow> length row = c) \<Longrightarrow> i < length A \<Longrightarrow>
   take c (drop (i * c) (concat A)) = A ! i"
proof (induction A arbitrary: i)
  case Nil
  then show ?case by simp
next
  case (Cons a A)
  show ?case
  proof (cases i)
    case 0
    then show ?thesis using Cons.prems by simp
  next
    case (Suc k)
    have "drop (Suc k * c) (concat (a # A)) = drop (k * c) (concat A)"
      using Cons.prems(1) [of a] by simp
    then show ?thesis using Cons Suc by simp
  qed
qed

lemma np_reshape_flatten_grid: "np_reshape (flatten (grid f shp)) shp = Inr (grid f shp)"
proof -
  have rows: "\<And>i. i < fst shp \<Longrightarrow>
      take (snd shp) (drop (i * snd shp) (concat (grid f shp))) = grid f shp ! i"
    by (rule take_drop_concat_uniform) (simp_all add: grid_row_length length_grid)
  have "map (\<lambda>i. take (snd shp) (drop (i * snd shp) (flatten (grid f shp)))) [0..<fst shp] = grid f shp"
    by (rule nth_equalityI) (simp_all add: length_grid rows flatten_def)
  then show ?thesis
    by (simp add: np_reshape_def length_flatten_grid)
qed

lemma arr2_sub_grid: "arr2_sub (grid f shp) (grid g shp) = grid (\<lambda>i j. f i j - g i j) shp"
  by (simp add: arr2_sub_def grid_def zip_map_map zip_same_conv_map o_def)

lemma nth_flatten_grid:
  assumes "i < fst shp" "j < snd shp"
  shows "flatten (grid f shp) ! (i * snd shp + j) = f i j"
proof -
  have "take (snd shp) (drop (i * snd shp) (concat (grid f shp))) = grid f shp ! i"
    by (rule take_drop_concat_uniform) (simp_all add: grid_row_length length_grid assms)
  then have "take (snd shp) (drop (i * snd shp) (flatten (grid f shp))) ! j = f i j"
    using assms by (simp add: flatten_def nth_grid)
  moreover have "i * snd shp + j < length (flatten (grid f shp))"
  proof -
    have "i * snd shp + j < i * snd shp + snd shp" using assms by simp
    also have "\<dots> = Suc i * snd shp" by simp
    also have "\<dots> \<le> fst shp * snd shp" using assms(1) by (intro mult_le_mono1) simp
    finally show ?thesis by (simp add: length_flatten_grid)
  qed
  ultimately show ?thesis using assms by simp
qed


subsection \<open>The point evaluators, row by row\<close>

lemma tth_corr_sample_layer_rows:
  "tth_corr_sample_layer api det xy st th pt sd rn =
     map (\<lambda>p.
        (let t = fst (cart_to_angles api det p);
             cos_beta = - vz (unit_vec (vec_add (mat_vec (rmat det) (fst p, snd p, 0)) (tvec det)));
             corr = np_arctan (np_div (Fin (sin t))
                      (np_sub (np_div (Fin (sd * cos_beta)) (Fin (st + 0.5 * th + 0.5 * pt)))
                         (Fin (cos t))))
         in (if rn then np_sub (Fin t) corr else np_neg corr, snd (cart_to_angles api det p))))
       (np_atleast_2d xy)"
  by (simp add: tth_corr_sample_layer_def Let_def unitRowVector_def arctan_term_map
        zip_map_map zip_same_conv_map row_dot_transpose3 split_beta o_def
      del: np_div.simps np_sub.simps np_arctan.simps np_neg.simps)

lemma tth_corr_pinhole_rows:
  "tth_corr_pinhole api det xy t r rn =
     map (\<lambda>p.
        (let ref_eta = snd (cart_to_angles api (det\<lparr>bvec := beam_vec\<rparr>) p);
             origin = vec_scale (- r) (cos ref_eta, sin ref_eta, 0.5 * t);
             pin_tth = fst (detectorXYToGvec api p (rmat det) identity_3x3 (tvec det) zeros_3
                         origin (bvec det) (evec det));
             nom = cart_to_angles api det p;
             tth_corr = pin_tth - fst nom
         in (if rn then fst nom - tth_corr else - tth_corr, snd nom)))
       (np_atleast_2d xy)"
proof -
  let ?pts = "np_atleast_2d xy"
  let ?eta = "\<lambda>p. snd (cart_to_angles api (det\<lparr>bvec := beam_vec\<rparr>) p)"
  have z: "zip ?pts (map ?eta ?pts) = map (\<lambda>p. (p, ?eta p)) ?pts"
    by (simp add: zip_map2 zip_same_conv_map)
  have loop: "pinhole_loop api (rmat det) (tvec det) (bvec det) (evec det) t r
                (enumerate 0 (zip ?pts (map ?eta ?pts))) (replicate (length ?pts) 0) =
              map (\<lambda>p. fst (detectorXYToGvec api p (rmat det) identity_3x3 (tvec det) zeros_3
                     (vec_scale (- r) (cos (?eta p), sin (?eta p), 0.5 * t)) (bvec det) (evec det)))
                ?pts"
    using pinhole_loop_zeros [of api "rmat det" "tvec det" "bvec det" "evec det" t r
        "zip ?pts (map ?eta ?pts)"]
    by (simp add: z o_def)
  show ?thesis
    unfolding tth_corr_pinhole_def Let_def map_map o_def loop
    by (simp add: zip_map_map zip_same_conv_map o_def)
qed


subsection \<open>The map evaluators, detector by detector\<close>

lemma arctan_term_flatten_grid:
  "arctan_term sd zs (flatten (grid f shp)) (flatten (grid g shp)) (flatten (grid h shp)) =
     flatten (grid (\<lambda>i j. np_arctan (np_div (Fin (f i j))
        (np_sub (np_div (Fin (sd * g i j)) (Fin zs)) (Fin (h i j))))) shp)"
  by (simp add: arctan_term_def map_flatten_grid zip_flatten_grid
      del: np_div.simps np_sub.simps np_arctan.simps)

lemma lab_rows:
  "length xs = length ys \<Longrightarrow>
   transpose_cols (add_column (mat_dot_cols M (xs, ys, replicate (length xs) 0)) t) =
     map (\<lambda>p. vec_add (mat_vec M (fst p, snd p, 0)) t) (zip xs ys)"
  by (cases M rule: prod_cases3; cases t rule: prod_cases3)
     (auto simp: transpose_cols_def add_column_def mat_dot_cols_def intro!: nth_equalityI)

lemma sample_layer_field:
  "np_reshape
     (arctan_term sd zs
        (map sin (flatten (fst (pixel_angles_grids api det))))
        (map (\<lambda>d. - vz d)
           (unitRowVector (transpose_cols (add_column
              (mat_dot_cols (rmat det)
                 (flatten (snd (pixel_coords det)), flatten (fst (pixel_coords det)),
                  replicate (length (flatten (snd (pixel_coords det)))) 0))
              (tvec det)))))
        (map cos (flatten (fst (pixel_angles_grids api det)))))
     (shape det) =
   Inr (grid (layer_pixel api det sd zs) (shape det))"
proof -
  have len: "length (flatten (snd (pixel_coords det))) = length (flatten (fst (pixel_coords det)))"
    by (simp add: pixel_coords_def length_flatten_grid)
  show ?thesis
    unfolding lab_rows [OF len] unitRowVector_def
    by (simp add: pixel_coords_def pixel_angles_grids_def map_flatten_grid zip_flatten_grid
          arctan_term_flatten_grid np_reshape_flatten_grid
        del: np_div.simps np_sub.simps np_arctan.simps)
qed

lemma dict_setitem_mid:
  "k \<notin> fst ` set pre \<Longrightarrow> dict_setitem k v (pre @ (k, w) # rest) = pre @ (k, v) # rest"
  by (induction pre) auto

lemma sample_layer_items_eq:
  "distinct (map fst items) \<Longrightarrow> fst ` set pre \<inter> fst ` set items = {} \<Longrightarrow>
   sample_layer_items api instr zs items (pre @ dict_fromkeys items) =
     Inr (pre @ map (\<lambda>(k, det). (k, Some (grid (layer_pixel api det (source_distance instr) zs) (shape det)))) items)"
proof (induction items arbitrary: pre)
  case Nil
  then show ?case by (simp add: dict_fromkeys_def)
next
  case (Cons item items)
  obtain k det where item: "item = (k, det)" by (cases item)
  let ?v = "Some (grid (layer_pixel api det (source_distance instr) zs) (shape det))"
  have k: "k \<notin> fst ` set pre" using Cons.prems(2) item by auto
  have step: "dict_setitem k ?v (pre @ dict_fromkeys (item # items)) =
                (pre @ [(k, ?v)]) @ dict_fromkeys items"
    using dict_setitem_mid [OF k] by (simp add: dict_fromkeys_def item)
  have d: "distinct (map fst items)" using Cons.prems(1) by simp
  have disj: "fst ` set (pre @ [(k, ?v)]) \<inter> fst ` set items = {}"
    using Cons.prems item by auto
  have "sample_layer_items api instr zs (item # items) (pre @ dict_fromkeys (item # items)) =
        sample_layer_items api instr zs items
          (dict_setitem k ?v (pre @ dict_fromkeys (item # items)))"
    unfolding item sample_layer_items.simps Let_def sample_layer_field by simp
  also have "\<dots> = sample_layer_items api instr zs items ((pre @ [(k, ?v)]) @ dict_fromkeys items)"
    by (simp only: step)
  also have "\<dots> = Inr ((pre @ [(k, ?v)]) @
      map (\<lambda>(k, det). (k, Some (grid (layer_pixel api det (source_distance instr) zs) (shape det)))) items)"
    by (rule Cons.IH [OF d disj])
  finally show ?case by (simp add: item)
qed

lemma tth_corr_map_sample_layer_eq:
  "distinct (map fst (detectors instr)) \<Longrightarrow>
   tth_corr_map_sample_layer api instr st th pt =
     Inr (map (\<lambda>(k, det). (k, Some (grid (layer_pixel api det (source_distance instr)
                                          (st + 0.5 * th + 0.5 * pt)) (shape det))))
            (detectors instr))"
  using sample_layer_items_eq [of "detectors instr" "[]"]
  by (simp add: tth_corr_map_sample_layer_def Let_def)

lemma pinhole_field:
  assumes "shape cp_det = shape det"
  shows
  "np_reshape
     (pinhole_loop api (rmat det) (tvec det) b e t r
        (enumerate 0
           (zip (zip (flatten (snd (pixel_coords det))) (flatten (fst (pixel_coords det))))
              (flatten (snd (pixel_angles_grids api cp_det)))))
        (replicate (length (flatten (snd (pixel_angles_grids api cp_det)))) 0))
     (shape det) =
   Inr (grid (\<lambda>i j. fst (detectorXYToGvec api (pixel_center det i j) (rmat det) identity_3x3
                 (tvec det) zeros_3
                 (vec_scale (- r) (cos (snd (pixel_angles api cp_det i j)),
                                   sin (snd (pixel_angles api cp_det i j)), 0.5 * t))
                 b e))
          (shape det))"
proof -
  let ?F = "\<lambda>i j. (pixel_center det i j, snd (pixel_angles api cp_det i j))"
  have zs: "zip (zip (flatten (snd (pixel_coords det))) (flatten (fst (pixel_coords det))))
              (flatten (snd (pixel_angles_grids api cp_det))) = flatten (grid ?F (shape det))"
    by (simp add: pixel_coords_def pixel_angles_grids_def assms zip_flatten_grid)
  have n: "length (flatten (snd (pixel_angles_grids api cp_det))) = length (flatten (grid ?F (shape det)))"
    by (simp add: pixel_angles_grids_def assms length_flatten_grid)
  show ?thesis
    unfolding zs n pinhole_loop_zeros
    by (simp add: map_flatten_grid np_reshape_flatten_grid)
qed

lemma pinhole_items_eq:
  "distinct (map fst items) \<Longrightarrow> fst ` set pre \<inter> fst ` set items = {} \<Longrightarrow>
   (\<And>k d. (k, d) \<in> set items \<Longrightarrow> map_of (detectors cp_instr) k = Some (d\<lparr>bvec := beam_vec\<rparr>)) \<Longrightarrow>
   pinhole_items api instr cp_instr t r items (pre @ dict_fromkeys items) =
     Inr (pre @ map (\<lambda>(k, det). (k, Some (grid (pinhole_pixel api det (beam_vector instr)
                                              (eta_vector instr) t r) (shape det)))) items)"
proof (induction items arbitrary: pre)
  case Nil
  then show ?case by (simp add: dict_fromkeys_def)
next
  case (Cons item items)
  obtain k det where item: "item = (k, det)" by (cases item)
  let ?v = "Some (grid (pinhole_pixel api det (beam_vector instr) (eta_vector instr) t r) (shape det))"
  have k: "k \<notin> fst ` set pre" using Cons.prems(2) item by auto
  have step: "dict_setitem k ?v (pre @ dict_fromkeys (item # items)) =
                (pre @ [(k, ?v)]) @ dict_fromkeys items"
    using dict_setitem_mid [OF k] by (simp add: dict_fromkeys_def item)
  have d: "distinct (map fst items)" using Cons.prems(1) by simp
  have disj: "fst ` set (pre @ [(k, ?v)]) \<inter> fst ` set items = {}"
    using Cons.prems(1,2) item by auto
  have get: "dict_getitem (detectors cp_instr) k = Inr (det\<lparr>bvec := beam_vec\<rparr>)"
    using Cons.prems(3) [of k det] by (simp add: dict_getitem_def item)
  have shp: "shape (det\<lparr>bvec := beam_vec\<rparr>) = shape det" by simp
  have "pinhole_items api instr cp_instr t r (item # items) (pre @ dict_fromkeys (item # items)) =
        pinhole_items api instr cp_instr t r items
          (dict_setitem k ?v (pre @ dict_fromkeys (item # items)))"
    apply (simp only: item pinhole_items.simps get sum.case Let_def)
    apply (simp only: pinhole_field [OF shp] sum.case)
    apply (simp add: pixel_angles_grids_def arr2_sub_grid)
    done
  also have "\<dots> = pinhole_items api instr cp_instr t r items ((pre @ [(k, ?v)]) @ dict_fromkeys items)"
    by (simp only: step)
  also have "\<dots> = Inr ((pre @ [(k, ?v)]) @
      map (\<lambda>(k, det). (k, Some (grid (pinhole_pixel api det (beam_vector instr)
                                              (eta_vector instr) t r) (shape det)))) items)"
    using Cons.prems(3) by (intro Cons.IH [OF d disj]) simp
  finally show ?case by (simp add: item)
qed

lemma map_of_set_beam_vector:
  assumes "distinct (map fst (detectors instr))" "(k, d) \<in> set (detectors instr)"
  shows "map_of (detectors (set_beam_vector instr b)) k = Some (d\<lparr>bvec := b\<rparr>)"
proof -
  have "map_of (detectors instr) k = Some d"
    using assms by simp
  then show ?thesis
    by (simp add: set_beam_vector_def map_of_map)
qed

lemma tth_corr_map_pinhole_eq:
  "distinct (map fst (detectors instr)) \<Longrightarrow>
   tth_corr_map_pinhole api instr t r =
     Inr (map (\<lambda>(k, det). (k, Some (grid (pinhole_pixel api det (beam_vector instr)
                                          (eta_vector instr) t r) (shape det))))
            (detectors instr))"
  using pinhole_items_eq [of "detectors instr" "[]" "set_beam_vector instr beam_vec" api instr t r]
    map_of_set_beam_vector [of instr _ _ beam_vec]
  by (simp add: tth_corr_map_pinhole_def Let_def)


subsection \<open>The demonstration detector\<close>

lemma sqrt25: "sqrt 25 = 5"
  using real_sqrt_abs [of 5] by simp

lemma sqrt16: "sqrt 16 = 4"
  using real_sqrt_abs [of 4] by simp

lemma sqrt9: "sqrt 9 = 3"
  using real_sqrt_abs [of 3] by simp

lemma sin_arccos_45: "sin (arccos (4 / 5)) = 3 / 5"
proof -
  have "sin (arccos (4 / 5)) = sqrt (1 - (4 / 5)\<^sup>2)"
    by (rule sin_arccos) simp_all
  also have "1 - (4 / 5 :: real)\<^sup>2 = 9 / 25"
    by (simp add: power2_eq_square)
  also have "sqrt (9 / 25) = 3 / 5"
    by (simp add: real_sqrt_divide sqrt9 sqrt25)
  finally show ?thesis .
qed


lemma arccos_35_gt: "arccos (4 / 5) < arccos (3 / 5)"
  by (simp add: arccos_less_mono)

lemma planar_angles_30:
  "planar_xy_to_angles (3, 0) identity_3x3 identity_3x3 (0, 0, - 4) zeros_3 zeros_3 (0, 0, - 1) (1, 0, 0)
     = (arccos (4 / 5), 0)"
  by (simp add: planar_xy_to_angles_def identity_3x3_def zeros_3_def unit_vec_def vec_norm_def
        sqrt25 np_arctan2_def Let_def)

lemma planar_angles_00:
  "planar_xy_to_angles (0, 0) identity_3x3 identity_3x3 (0, 0, - 4) zeros_3 zeros_3 (0, 0, - 1) (1, 0, 0)
     = (0, 0)"
  by (simp add: planar_xy_to_angles_def identity_3x3_def zeros_3_def unit_vec_def vec_norm_def
        sqrt16 np_arctan2_def Let_def)

lemma planar_angles_30_displaced:
  "planar_xy_to_angles (3, 0) identity_3x3 identity_3x3 (0, 0, - 4) zeros_3 (- 1, 0, - 1)
       (0, 0, - 1) (1, 0, 0)
     = (arccos (3 / 5), 0)"
  by (simp add: planar_xy_to_angles_def identity_3x3_def zeros_3_def unit_vec_def vec_norm_def
        sqrt25 np_arctan2_def Let_def)

lemma demo_fields:
  "rmat demo_det = identity_3x3" "tvec demo_det = (0, 0, - 4)" "bvec demo_det = (0, 0, - 1)"
  "evec demo_det = (1, 0, 0)" "shape demo_det = (1, 2)" "distortion demo_det = None"
  "pixel_center demo_det i j = (3 * real j, 0)"
  by (simp_all add: demo_det_def)

lemma planar_fields:
  "cart_to_angles planar = planar_cart_to_angles"
  "detectorXYToGvec planar = planar_xy_to_angles"
  "pixel_angles planar d i j = planar_cart_to_angles d (pixel_center d i j)"
  by (simp_all add: planar_def)

lemma demo_cart_to_angles_30: "cart_to_angles planar demo_det (3, 0) = (arccos (4 / 5), 0)"
  by (simp add: planar_def planar_cart_to_angles_def demo_det_def planar_angles_30)

lemma demo_cart_to_angles_00: "cart_to_angles planar demo_det (0, 0) = (0, 0)"
  by (simp add: planar_def planar_cart_to_angles_def demo_det_def planar_angles_00)

lemma demo_ref_30:
  "cart_to_angles planar (demo_det\<lparr>bvec := beam_vec\<rparr>) (3, 0) = (arccos (4 / 5), 0)"
  by (simp add: planar_def planar_cart_to_angles_def demo_det_def beam_vec_def planar_angles_30)

lemma demo_dhat_30:
  "unit_vec (vec_add (mat_vec (rmat demo_det) (3, 0, 0)) (tvec demo_det)) = (3 / 5, 0, - (4 / 5))"
  by (simp add: demo_det_def identity_3x3_def unit_vec_def vec_norm_def sqrt25)

lemma demo_dhat_00:
  "unit_vec (vec_add (mat_vec (rmat demo_det) (0, 0, 0)) (tvec demo_det)) = (0, 0, - 1)"
  by (simp add: demo_det_def identity_3x3_def unit_vec_def vec_norm_def sqrt16)





lemma flat_index_less: "i < r \<Longrightarrow> j < c \<Longrightarrow> i * c + j < r * (c::nat)"
proof -
  assume a: "i < r" "j < c"
  have "i * c + j < i * c + c" using a by simp
  also have "\<dots> = Suc i * c" by simp
  also have "\<dots> \<le> r * c" using a(1) by (intro mult_le_mono1) simp
  finally show ?thesis .
qed

lemma pixel_batch:
  "zip (flatten (snd (pixel_coords det))) (flatten (fst (pixel_coords det))) =
     flatten (grid (pixel_center det) (shape det))"
  by (simp add: pixel_coords_def zip_flatten_grid)

lemma map_of_fields:
  assumes "distinct (map fst dets)" "(k, det) \<in> set dets"
  shows "map_of (map (\<lambda>(k, d). (k, f d)) dets) k = Some (f det)"
proof -
  have "map_of dets k = Some det" using assms by simp
  then show ?thesis by (simp add: map_of_map)
qed

lemma map_fst_fields: "map fst (map (\<lambda>(k, d). (k, f d)) dets) = map fst dets"
  by (induction dets) auto

lemma grid_1_2: "grid f (Suc 0, 2) = [[f 0 0, f 0 (Suc 0)]]"
  by (simp add: grid_def numeral_2_eq_2)

lemma demo_instr_fields:
  "detectors (demo_instr sd) = [(''det1'', demo_det)]"
  "beam_vector (demo_instr sd) = (0, 0, - 1)"
  "eta_vector (demo_instr sd) = (1, 0, 0)"
  "source_distance (demo_instr sd) = sd"
  by (simp_all add: demo_instr_def)

lemma demo_pixel_batch:
  "zip (flatten (snd (pixel_coords demo_det))) (flatten (fst (pixel_coords demo_det))) =
     [(0, 0), (3, 0)]"
  unfolding pixel_batch by (simp add: demo_fields grid_1_2 flatten_def)

lemma demo_layer_map:
  "tth_corr_map_sample_layer planar (demo_instr 7) 4 0 0 =
     Inr [(''det1'', Some [[Fin 0, Fin (pi / 4)]])]"
  by (simp add: tth_corr_map_sample_layer_eq demo_instr_fields demo_fields grid_1_2
        planar_fields(3) demo_cart_to_angles_00 [unfolded planar_fields(1)]
        demo_cart_to_angles_30 [unfolded planar_fields(1)]
        demo_dhat_00 [unfolded demo_fields] demo_dhat_30 [unfolded demo_fields]
        sin_arccos_45 arctan_one)

lemma demo_layer_raw:
  "tth_corr_sample_layer planar demo_det (Batch [(0, 0), (3, 0)]) 4 0 0 7 False =
     [(Fin 0, 0), (Fin (- (pi / 4)), 0)]"
  by (simp add: tth_corr_sample_layer_rows Let_def demo_cart_to_angles_00 demo_cart_to_angles_30
        demo_dhat_00 demo_dhat_30 sin_arccos_45 arctan_one)

lemma demo_pinhole_map:
  "tth_corr_map_pinhole planar (demo_instr sd) 2 1 =
     Inr [(''det1'', Some (grid (pinhole_pixel planar demo_det (0, 0, - 1) (1, 0, 0) 2 1) (Suc 0, 2)))]"
  by (simp add: tth_corr_map_pinhole_eq demo_instr_fields demo_fields(5))

lemma demo_pinhole_entry:
  "grid (pinhole_pixel planar demo_det (0, 0, - 1) (1, 0, 0) 2 1) (Suc 0, 2) ! 0 ! 1 =
     arccos (3 / 5) - arccos (4 / 5)"
  unfolding grid_1_2
  by (simp add: planar_fields(2,3) demo_fields
        demo_cart_to_angles_30 [unfolded planar_fields(1)]
        demo_ref_30 [unfolded planar_fields(1)] planar_angles_30_displaced)

lemma demo_pinhole_raw_1:
  "tth_corr_pinhole planar demo_det (Batch [(0, 0), (3, 0)]) 2 1 False ! 1 =
     (- (arccos (3 / 5) - arccos (4 / 5)), 0)"
  by (simp add: tth_corr_pinhole_rows Let_def demo_cart_to_angles_30 demo_ref_30
        planar_fields(2) demo_fields planar_angles_30_displaced)


subsection \<open>The evaluator with explicit rounding\<close>

lemma rounded_id: "rounded (\<lambda>x. x) v = v"
  by (cases v) simp_all

lemma exact_fields:
  "rnd exact_arith = (\<lambda>x. x)" "fsin exact_arith = sin" "fcos exact_arith = cos"
  "farctan exact_arith = arctan"
  "fdhat exact_arith rm tv p = unit_vec (vec_add (row_dot (fst p, snd p, 0) (transpose3 rm)) tv)"
  by (simp_all add: exact_arith_def)

lemma np_arctan_rounded_exact: "np_arctan_rounded exact_arith v = np_arctan v"
  by (cases v) (simp_all add: exact_fields)

lemma arctan_term_rounded_map:
  "arctan_term_rounded fa sd zs (map f xs) (map g xs) (map h xs) =
     map (\<lambda>x. np_arctan_rounded fa (rounded (rnd fa) (np_div (Fin (f x))
            (rounded (rnd fa) (np_sub
               (rounded (rnd fa) (np_div (Fin (rnd fa (sd * g x))) (Fin zs)))
               (Fin (h x))))))) xs"
  by (rule nth_equalityI) (simp_all add: arctan_term_rounded_def del: np_div.simps np_sub.simps)

lemma tth_corr_sample_layer_rounded_rows:
  "tth_corr_sample_layer_rounded fa api det xy st th pt sd rn =
     map (\<lambda>p.
        (let t = fst (cart_to_angles api det p);
             zs = rnd fa (rnd fa (st + rnd fa (0.5 * th)) + rnd fa (0.5 * pt));
             cos_beta = - vz (fdhat fa (rmat det) (tvec det) p);
             denom = rounded (rnd fa) (np_sub
                       (rounded (rnd fa) (np_div (Fin (rnd fa (sd * cos_beta))) (Fin zs)))
                       (Fin (fcos fa t)));
             corr = np_arctan_rounded fa (rounded (rnd fa) (np_div (Fin (fsin fa t)) denom))
         in (if rn then rounded (rnd fa) (np_sub (Fin t) corr) else np_neg corr,
             snd (cart_to_angles api det p))))
       (np_atleast_2d xy)"
  by (simp add: tth_corr_sample_layer_rounded_def Let_def arctan_term_rounded_map
        zip_map_map zip_same_conv_map split_beta o_def
      del: np_div.simps np_sub.simps np_arctan_rounded.simps np_neg.simps rounded.simps)

lemma rounded_exact_is_ideal:
  "tth_corr_sample_layer_rounded exact_arith api det xy st th pt sd rn =
     tth_corr_sample_layer api det xy st th pt sd rn"
  unfolding tth_corr_sample_layer_rounded_rows tth_corr_sample_layer_rows
  by (simp add: Let_def np_arctan_rounded_exact row_dot_transpose3 exact_fields rounded_id
      del: np_div.simps np_sub.simps np_arctan.simps np_neg.simps rounded.simps)

lemma quotient_zero_denominator:
  "np_arctan_rounded fa (rounded r (np_div (Fin s) (Fin 0))) =
     (if 0 < s then Fin (rnd fa (pi / 2)) else if s < 0 then Fin (- rnd fa (pi / 2)) else NaN)"
  by simp

lemma quotient_other_denominator:
  "d \<noteq> Fin 0 \<Longrightarrow> d \<noteq> NaN \<Longrightarrow>
   np_isfinite (np_arctan_rounded fa (rounded r (np_div (Fin s) d)))"
  by (cases d) auto

lemma quotient_nan_denominator:
  "np_arctan_rounded fa (rounded r (np_div (Fin s) NaN)) = NaN"
  by simp

lemma finite_outputs:
  "np_isfinite c \<Longrightarrow> np_isfinite (np_neg c) \<and> np_isfinite (rounded r (np_sub (Fin t) c))"
  by (cases c) simp_all


subsection \<open>The range of the ints that convert to a float\<close>

lemma float_int_limit_less: "float_int_limit < 10 ^ 309"
  by (simp add: float_int_limit_def)

lemma seven_in_range: "\<bar>7 :: int\<bar> < float_int_limit"
  by (simp add: float_int_limit_def)


section \<open>The claims\<close>

text \<open>
  C1 (amended). For every detector of an instrument (its keys distinct, as in a
  dictionary) and every pixel whose entry of the pixel-angle grid is the detector's
  nominal \<open>2\<theta>\<close> at the pixel centre: the entry of the correction field that
  \<open>tth_corr_map_sample_layer\<close> returns is the negation of the first column that
  \<open>tth_corr_sample_layer\<close> with \<open>return_nominal=False\<close> gives at the pixel centres,
  with \<open>source_distance\<close> taken from the instrument. The map holds \<open>tth_corr\<close>, the
  point evaluator returns \<open>- tth_corr\<close>.
\<close>

theorem sample_layer_map_is_negated_raw:
  assumes "distinct (map fst (detectors instr))"
      and "(k, det) \<in> set (detectors instr)"
      and "i < fst (shape det)" and "j < snd (shape det)"
      and "fst (pixel_angles api det i j) = fst (cart_to_angles api det (pixel_center det i j))"
  shows "\<exists>d field.
           tth_corr_map_sample_layer api instr st th pt = Inr d
         \<and> map_of d k = Some (Some field)
         \<and> field ! i ! j =
             np_neg (fst (tth_corr_sample_layer api det
                (Batch (zip (flatten (snd (pixel_coords det))) (flatten (fst (pixel_coords det)))))
                st th pt (source_distance instr) False ! (i * snd (shape det) + j)))"
proof -
  let ?F = "\<lambda>det. Some (grid (layer_pixel api det (source_distance instr) (st + 0.5 * th + 0.5 * pt))
                       (shape det))"
  have m: "tth_corr_map_sample_layer api instr st th pt =
             Inr (map (\<lambda>(k, det). (k, ?F det)) (detectors instr))"
    by (rule tth_corr_map_sample_layer_eq [OF assms(1)])
  have l: "map_of (map (\<lambda>(k, det). (k, ?F det)) (detectors instr)) k = Some (?F det)"
    by (rule map_of_fields [OF assms(1,2)])
  have n: "i * snd (shape det) + j < length (flatten (grid (pixel_center det) (shape det)))"
    using assms(3,4) by (simp add: length_flatten_grid flat_index_less)
  have p: "flatten (grid (pixel_center det) (shape det)) ! (i * snd (shape det) + j) =
             pixel_center det i j"
    by (rule nth_flatten_grid [OF assms(3,4)])
  have e: "grid (layer_pixel api det (source_distance instr) (st + 0.5 * th + 0.5 * pt))
             (shape det) ! i ! j =
           np_neg (fst (tth_corr_sample_layer api det
                (Batch (zip (flatten (snd (pixel_coords det))) (flatten (fst (pixel_coords det)))))
                st th pt (source_distance instr) False ! (i * snd (shape det) + j)))"
    using n assms(3,4,5)
    by (simp add: nth_nth_grid tth_corr_sample_layer_rows pixel_batch p Let_def np_neg_neg
        del: np_div.simps np_sub.simps np_arctan.simps np_neg.simps)
  show ?thesis using m l e by blast
qed

theorem sample_layer_map_is_negated_raw_witness:
  "distinct (map fst (detectors (demo_instr 7)))
   \<and> (''det1'', demo_det) \<in> set (detectors (demo_instr 7))
   \<and> 0 < fst (shape demo_det) \<and> 1 < snd (shape demo_det)
   \<and> fst (pixel_angles planar demo_det 0 1) =
       fst (cart_to_angles planar demo_det (pixel_center demo_det 0 1))
   \<and> (\<exists>d field.
         tth_corr_map_sample_layer planar (demo_instr 7) 4 0 0 = Inr d
       \<and> map_of d ''det1'' = Some (Some field)
       \<and> field ! 0 ! 1 =
           np_neg (fst (tth_corr_sample_layer planar demo_det
              (Batch (zip (flatten (snd (pixel_coords demo_det)))
                          (flatten (fst (pixel_coords demo_det)))))
              4 0 0 (source_distance (demo_instr 7)) False ! (0 * snd (shape demo_det) + 1))))"
proof -
  have h1: "distinct (map fst (detectors (demo_instr 7)))"
    by (simp add: demo_instr_fields)
  have h2: "(''det1'', demo_det) \<in> set (detectors (demo_instr 7))"
    by (simp add: demo_instr_fields)
  have h3: "0 < fst (shape demo_det)" and h4: "1 < snd (shape demo_det)"
    by (simp_all add: demo_fields)
  have h5: "fst (pixel_angles planar demo_det 0 1) =
              fst (cart_to_angles planar demo_det (pixel_center demo_det 0 1))"
    by (simp add: planar_fields)
  show ?thesis
    by (intro conjI)
       (rule h1 h2 h3 h4 h5
          sample_layer_map_is_negated_raw [OF h1 h2 h3 h4 h5, where st = 4 and th = 0 and pt = 0])+
qed

text \<open>
  C1 as stated fails: on the demonstration instrument the entry of pixel \<open>(0, 1)\<close> is
  \<open>\<pi>/4\<close>, and the raw first column at that pixel's centre is \<open>- \<pi>/4\<close>.
\<close>

theorem sample_layer_map_differs_from_raw:
  "\<exists>d field.
       tth_corr_map_sample_layer planar (demo_instr 7) 4 0 0 = Inr d
     \<and> map_of d ''det1'' = Some (Some field)
     \<and> field ! 0 ! 1 = Fin (pi / 4)
     \<and> fst (tth_corr_sample_layer planar demo_det
              (Batch (zip (flatten (snd (pixel_coords demo_det)))
                          (flatten (fst (pixel_coords demo_det)))))
              4 0 0 (source_distance (demo_instr 7)) False ! 1) = Fin (- (pi / 4))
     \<and> field ! 0 ! 1 \<noteq>
         fst (tth_corr_sample_layer planar demo_det
              (Batch (zip (flatten (snd (pixel_coords demo_det)))
                          (flatten (fst (pixel_coords demo_det)))))
              4 0 0 (source_distance (demo_instr 7)) False ! 1)"
  by (simp add: demo_layer_map demo_pixel_batch demo_instr_fields demo_layer_raw)


text \<open>
  C2 (amended). For every detector of an instrument (its keys distinct) whose beam and
  azimuth-reference vectors are the instrument's, and every pixel whose entries of the
  pixel-angle grids (of the detector and of its copy with the beam vector \<open>[0, 0, -1]\<close>)
  are the angles of the pixel centre: \<open>tth_corr_pinhole\<close> with \<open>return_nominal=False\<close>, at
  the detector's pixel centres, gives the negation of the entry of the correction field
  that \<open>tth_corr_map_pinhole\<close> returns. The map holds \<open>pin_tth - nom_tth\<close>, the point
  evaluator returns \<open>- (pin_tth - nom_tth)\<close>.
\<close>

theorem pinhole_map_is_negated_raw:
  assumes "distinct (map fst (detectors instr))"
      and "(k, det) \<in> set (detectors instr)"
      and "i < fst (shape det)" and "j < snd (shape det)"
      and "bvec det = beam_vector instr" and "evec det = eta_vector instr"
      and "fst (pixel_angles api det i j) = fst (cart_to_angles api det (pixel_center det i j))"
      and "snd (pixel_angles api (det\<lparr>bvec := beam_vec\<rparr>) i j) =
           snd (cart_to_angles api (det\<lparr>bvec := beam_vec\<rparr>) (pixel_center det i j))"
  shows "\<exists>d field.
           tth_corr_map_pinhole api instr t r = Inr d
         \<and> map_of d k = Some (Some field)
         \<and> fst (tth_corr_pinhole api det
                (Batch (zip (flatten (snd (pixel_coords det))) (flatten (fst (pixel_coords det)))))
                t r False ! (i * snd (shape det) + j)) = - (field ! i ! j)"
proof -
  let ?F = "\<lambda>det. Some (grid (pinhole_pixel api det (beam_vector instr) (eta_vector instr) t r)
                       (shape det))"
  have m: "tth_corr_map_pinhole api instr t r =
             Inr (map (\<lambda>(k, det). (k, ?F det)) (detectors instr))"
    by (rule tth_corr_map_pinhole_eq [OF assms(1)])
  have l: "map_of (map (\<lambda>(k, det). (k, ?F det)) (detectors instr)) k = Some (?F det)"
    by (rule map_of_fields [OF assms(1,2)])
  have n: "i * snd (shape det) + j < length (flatten (grid (pixel_center det) (shape det)))"
    using assms(3,4) by (simp add: length_flatten_grid flat_index_less)
  have p: "flatten (grid (pixel_center det) (shape det)) ! (i * snd (shape det) + j) =
             pixel_center det i j"
    by (rule nth_flatten_grid [OF assms(3,4)])
  have e: "fst (tth_corr_pinhole api det
                (Batch (zip (flatten (snd (pixel_coords det))) (flatten (fst (pixel_coords det)))))
                t r False ! (i * snd (shape det) + j)) =
           - (grid (pinhole_pixel api det (beam_vector instr) (eta_vector instr) t r)
                (shape det) ! i ! j)"
    using n assms(3-8)
    by (simp add: nth_nth_grid tth_corr_pinhole_rows pixel_batch p Let_def)
  show ?thesis using m l e by blast
qed

theorem pinhole_map_is_negated_raw_witness:
  "distinct (map fst (detectors (demo_instr 7)))
   \<and> (''det1'', demo_det) \<in> set (detectors (demo_instr 7))
   \<and> 0 < fst (shape demo_det) \<and> 1 < snd (shape demo_det)
   \<and> bvec demo_det = beam_vector (demo_instr 7) \<and> evec demo_det = eta_vector (demo_instr 7)
   \<and> fst (pixel_angles planar demo_det 0 1) =
       fst (cart_to_angles planar demo_det (pixel_center demo_det 0 1))
   \<and> snd (pixel_angles planar (demo_det\<lparr>bvec := beam_vec\<rparr>) 0 1) =
       snd (cart_to_angles planar (demo_det\<lparr>bvec := beam_vec\<rparr>) (pixel_center demo_det 0 1))
   \<and> (\<exists>d field.
         tth_corr_map_pinhole planar (demo_instr 7) 2 1 = Inr d
       \<and> map_of d ''det1'' = Some (Some field)
       \<and> fst (tth_corr_pinhole planar demo_det
              (Batch (zip (flatten (snd (pixel_coords demo_det)))
                          (flatten (fst (pixel_coords demo_det)))))
              2 1 False ! (0 * snd (shape demo_det) + 1)) = - (field ! 0 ! 1))"
proof -
  have h1: "distinct (map fst (detectors (demo_instr 7)))"
    by (simp add: demo_instr_fields)
  have h2: "(''det1'', demo_det) \<in> set (detectors (demo_instr 7))"
    by (simp add: demo_instr_fields)
  have h3: "0 < fst (shape demo_det)" and h4: "1 < snd (shape demo_det)"
    by (simp_all add: demo_fields)
  have h5: "bvec demo_det = beam_vector (demo_instr 7)"
    and h6: "evec demo_det = eta_vector (demo_instr 7)"
    by (simp_all add: demo_fields demo_instr_fields)
  have h7: "fst (pixel_angles planar demo_det 0 1) =
              fst (cart_to_angles planar demo_det (pixel_center demo_det 0 1))"
    by (simp add: planar_fields)
  have h8: "snd (pixel_angles planar (demo_det\<lparr>bvec := beam_vec\<rparr>) 0 1) =
       snd (cart_to_angles planar (demo_det\<lparr>bvec := beam_vec\<rparr>) (pixel_center demo_det 0 1))"
    by (simp add: planar_fields)
  show ?thesis
    by (intro conjI)
       (rule h1 h2 h3 h4 h5 h6 h7 h8
          pinhole_map_is_negated_raw [OF h1 h2 h3 h4 h5 h6 h7 h8, where t = 2 and r = 1])+
qed

text \<open>
  C2 as stated fails: on the demonstration instrument, with pinhole thickness 2 and radius
  1, the entry of pixel \<open>(0, 1)\<close> is \<open>arccos (3/5) - arccos (4/5)\<close>, and the raw first
  column at that pixel's centre is its negation.
\<close>

theorem pinhole_map_differs_from_raw:
  "\<exists>d field.
       tth_corr_map_pinhole planar (demo_instr 7) 2 1 = Inr d
     \<and> map_of d ''det1'' = Some (Some field)
     \<and> field ! 0 ! 1 = arccos (3 / 5) - arccos (4 / 5)
     \<and> fst (tth_corr_pinhole planar demo_det
              (Batch (zip (flatten (snd (pixel_coords demo_det)))
                          (flatten (fst (pixel_coords demo_det)))))
              2 1 False ! 1) = - (arccos (3 / 5) - arccos (4 / 5))
     \<and> fst (tth_corr_pinhole planar demo_det
              (Batch (zip (flatten (snd (pixel_coords demo_det)))
                          (flatten (fst (pixel_coords demo_det)))))
              2 1 False ! 1) \<noteq> field ! 0 ! 1"
proof -
  let ?G = "grid (pinhole_pixel planar demo_det (0, 0, - 1) (1, 0, 0) 2 1) (Suc 0, 2)"
  let ?raw = "fst (tth_corr_pinhole planar demo_det
              (Batch (zip (flatten (snd (pixel_coords demo_det)))
                          (flatten (fst (pixel_coords demo_det)))))
              2 1 False ! 1)"
  have 1: "tth_corr_map_pinhole planar (demo_instr 7) 2 1 = Inr [(''det1'', Some ?G)]"
    by (rule demo_pinhole_map)
  have 2: "map_of [(''det1'', Some ?G)] ''det1'' = Some (Some ?G)"
    by simp
  have 3: "?G ! 0 ! 1 = arccos (3 / 5) - arccos (4 / 5)"
    by (rule demo_pinhole_entry)
  have 4: "?raw = - (arccos (3 / 5) - arccos (4 / 5))"
    unfolding demo_pixel_batch demo_pinhole_raw_1 by simp
  have 5: "?raw \<noteq> ?G ! 0 ! 1"
    unfolding 3 4 using arccos_35_gt by simp
  show ?thesis
    by (intro exI conjI) (rule 1 2 3 4 5)+
qed


text \<open>
  C3. Both point evaluators return one row for each row of the coordinate batch, whatever
  \<open>return_nominal\<close> is. In every row, with the detector, the batch and the parameters
  fixed: the first entry of the \<open>return_nominal=True\<close> output is the nominal \<open>2\<theta>\<close> of the
  point plus the first entry of the \<open>return_nominal=False\<close> output, and the second
  (\<open>\<eta>\<close>) entry is the same in both outputs.
\<close>

theorem return_nominal_is_ref_plus_raw:
  "length (tth_corr_sample_layer api det xy st th pt sd True) = length (np_atleast_2d xy)
   \<and> length (tth_corr_sample_layer api det xy st th pt sd False) = length (np_atleast_2d xy)
   \<and> length (tth_corr_pinhole api det xy t r True) = length (np_atleast_2d xy)
   \<and> length (tth_corr_pinhole api det xy t r False) = length (np_atleast_2d xy)
   \<and> (\<forall>i < length (np_atleast_2d xy).
         fst (tth_corr_sample_layer api det xy st th pt sd True ! i) =
           np_add (Fin (fst (cart_to_angles api det (np_atleast_2d xy ! i))))
             (fst (tth_corr_sample_layer api det xy st th pt sd False ! i))
       \<and> snd (tth_corr_sample_layer api det xy st th pt sd True ! i) =
           snd (tth_corr_sample_layer api det xy st th pt sd False ! i)
       \<and> fst (tth_corr_pinhole api det xy t r True ! i) =
           fst (cart_to_angles api det (np_atleast_2d xy ! i))
             + fst (tth_corr_pinhole api det xy t r False ! i)
       \<and> snd (tth_corr_pinhole api det xy t r True ! i) =
           snd (tth_corr_pinhole api det xy t r False ! i))"
  by (simp add: tth_corr_sample_layer_rows tth_corr_pinhole_rows Let_def np_sub_add_neg
      del: np_div.simps np_sub.simps np_arctan.simps np_neg.simps np_add.simps)

theorem return_nominal_is_ref_plus_raw_witness:
  "(1::nat) < length (np_atleast_2d (Batch [(0, 0), (3, 0)]))
   \<and> length (tth_corr_sample_layer planar demo_det (Batch [(0, 0), (3, 0)]) 4 0 0 7 True) = 2
   \<and> length (tth_corr_pinhole planar demo_det (Batch [(0, 0), (3, 0)]) 2 1 True) = 2
   \<and> fst (tth_corr_sample_layer planar demo_det (Batch [(0, 0), (3, 0)]) 4 0 0 7 False ! 1) =
       Fin (- (pi / 4))
   \<and> fst (tth_corr_sample_layer planar demo_det (Batch [(0, 0), (3, 0)]) 4 0 0 7 True ! 1) =
       np_add (Fin (arccos (4 / 5))) (Fin (- (pi / 4)))
   \<and> fst (tth_corr_pinhole planar demo_det (Batch [(0, 0), (3, 0)]) 2 1 False ! 1) =
       - (arccos (3 / 5) - arccos (4 / 5))
   \<and> fst (tth_corr_pinhole planar demo_det (Batch [(0, 0), (3, 0)]) 2 1 True ! 1) =
       arccos (4 / 5) + - (arccos (3 / 5) - arccos (4 / 5))"
proof -
  have raw: "tth_corr_sample_layer planar demo_det (Batch [(0, 0), (3, 0)]) 4 0 0 7 False ! 1 =
               (Fin (- (pi / 4)), 0)"
    by (simp add: demo_layer_raw)
  have praw: "tth_corr_pinhole planar demo_det (Batch [(0, 0), (3, 0)]) 2 1 False ! 1 =
               (- (arccos (3 / 5) - arccos (4 / 5)), 0)"
    by (rule demo_pinhole_raw_1)
  note T = return_nominal_is_ref_plus_raw [where api = planar and det = demo_det
        and xy = "Batch [(0, 0), (3, 0)]" and st = 4 and th = 0 and pt = 0 and sd = 7
        and t = 2 and r = 1]
  have one: "(1::nat) < length (np_atleast_2d (Batch [(0, 0), (3, 0)]))"
    by simp
  show ?thesis
    using T [THEN conjunct1] T [THEN conjunct2, THEN conjunct2, THEN conjunct1]
      T [THEN conjunct2, THEN conjunct2, THEN conjunct2, THEN conjunct2, rule_format, OF one]
      raw praw
    by (simp add: demo_cart_to_angles_30)
qed






text \<open>
  C5. Row \<open>i\<close> of \<open>tth_corr_sample_layer\<close> is built from the correction term
  \<open>tth_corr = arctan (sin tth_nom / (source_distance * cos_beta / zs - cos tth_nom))\<close>, in
  NumPy's arithmetic, with \<open>zs = standoff + thickness/2 + pinhole_thickness/2\<close>, \<open>tth_nom\<close>
  the detector's nominal \<open>2\<theta>\<close> of the point and \<open>cos_beta\<close> the negated third component of
  the unit direction to the point placed in the lab frame by the detector's rotation and
  translation: the raw output is \<open>- tth_corr\<close>, the nominal one \<open>tth_nom - tth_corr\<close>. Where
  neither \<open>zs\<close> nor the denominator is zero, that is the arctangent of the real quotient.
\<close>

theorem sample_layer_closed_form:
  assumes "i < length (np_atleast_2d xy)"
  shows
    "(let p = np_atleast_2d xy ! i;
          zs = st + th / 2 + pt / 2;
          tth_nom = fst (cart_to_angles api det p);
          dhat = unit_vec (vec_add (mat_vec (rmat det) (fst p, snd p, 0)) (tvec det));
          cos_beta = - vz dhat;
          tth_corr = np_arctan (np_div (Fin (sin tth_nom))
                       (np_sub (np_div (Fin (sd * cos_beta)) (Fin zs)) (Fin (cos tth_nom))))
      in tth_corr_sample_layer api det xy st th pt sd False ! i =
           (np_neg tth_corr, snd (cart_to_angles api det p))
       \<and> tth_corr_sample_layer api det xy st th pt sd True ! i =
           (np_sub (Fin tth_nom) tth_corr, snd (cart_to_angles api det p))
       \<and> (zs \<noteq> 0 \<and> sd * cos_beta / zs - cos tth_nom \<noteq> 0 \<longrightarrow>
            tth_corr = Fin (arctan (sin tth_nom / (sd * cos_beta / zs - cos tth_nom)))))"
  using assms by (simp add: tth_corr_sample_layer_rows Let_def)

theorem sample_layer_closed_form_witness:
  "(1::nat) < length (np_atleast_2d (Batch [(0, 0), (3, 0)]))
   \<and> tth_corr_sample_layer planar demo_det (Batch [(0, 0), (3, 0)]) 4 0 0 7 False ! 1 =
       (Fin (- (pi / 4)), 0)
   \<and> tth_corr_sample_layer planar demo_det (Batch [(0, 0), (3, 0)]) 4 0 0 7 True ! 1 =
       (Fin (arccos (4 / 5) - pi / 4), 0)"
  using sample_layer_closed_form [where i = 1 and xy = "Batch [(0, 0), (3, 0)]" and st = 4 and th = 0
      and pt = 0 and api = planar and det = demo_det and sd = 7]
  by (simp add: Let_def demo_cart_to_angles_30 demo_dhat_30 sin_arccos_45 arctan_one)


text \<open>
  C6. For row \<open>i\<close>, \<open>tth_corr_pinhole\<close> takes the ray origin
  \<open>- pinhole_radius * (cos ref_eta, sin ref_eta, pinhole_thickness / 2)\<close>, where \<open>ref_eta\<close>
  is the azimuth of the point on a copy of the detector whose beam vector is
  \<open>[0, 0, -1]\<close>, and passes it to the geometry primitive with the rotation, the
  translation, the beam vector and the azimuth-reference vector of the detector itself; the
  correction is the primitive's \<open>2\<theta>\<close> minus the nominal \<open>2\<theta>\<close>.
\<close>

theorem pinhole_displaced_origin:
  assumes "i < length (np_atleast_2d xy)"
  shows
    "(let p = np_atleast_2d xy ! i;
          cp_det = det\<lparr>bvec := (0, 0, - 1)\<rparr>;
          ref_eta = snd (cart_to_angles api cp_det p);
          origin = vec_scale (- r) (cos ref_eta, sin ref_eta, t / 2);
          pin_tth = fst (detectorXYToGvec api p (rmat det) identity_3x3 (tvec det) zeros_3
                      origin (bvec det) (evec det));
          nom = cart_to_angles api det p
      in tth_corr_pinhole api det xy t r False ! i = (- (pin_tth - fst nom), snd nom)
       \<and> tth_corr_pinhole api det xy t r True ! i = (fst nom - (pin_tth - fst nom), snd nom))"
  using assms by (simp add: tth_corr_pinhole_rows Let_def beam_vec_def)

theorem pinhole_displaced_origin_witness:
  "(1::nat) < length (np_atleast_2d (Batch [(0, 0), (3, 0)]))
   \<and> tth_corr_pinhole planar demo_det (Batch [(0, 0), (3, 0)]) 2 1 False ! 1 =
       (- (arccos (3 / 5) - arccos (4 / 5)), 0)
   \<and> tth_corr_pinhole planar demo_det (Batch [(0, 0), (3, 0)]) 2 1 True ! 1 =
       (arccos (4 / 5) - (arccos (3 / 5) - arccos (4 / 5)), 0)"
  using pinhole_displaced_origin [where i = 1 and xy = "Batch [(0, 0), (3, 0)]" and r = 1 and t = 2
      and api = planar and det = demo_det]
  by (simp add: Let_def demo_cart_to_angles_30 demo_ref_30 [unfolded beam_vec_def]
        planar_fields(2) demo_fields planar_angles_30_displaced)


text \<open>
  C7 (amended). \<open>tth_corr_sample_layer\<close> returns a value for every input. Whatever the
  rounding of the operations: in a row whose computed denominator
  \<open>source_distance * cos_beta / zs - cos_tthn\<close> is exactly zero, the quotient is a signed
  infinity and its arctangent the finite angle \<open>\<plusminus>\<pi>/2\<close> (the double nearest to it), with
  the sign of the computed \<open>sin_tthn\<close>, unless \<open>sin_tthn\<close> is zero too, which gives
  not-a-number; a row whose computed denominator is a number other than zero, or an
  infinity, gets a finite value; a denominator that is not-a-number (\<open>0/0\<close> by \<open>zs = 0\<close>)
  gives not-a-number. With exact arithmetic the evaluator is the one of the other claims
  (\<open>rounded_exact_is_ideal\<close>).
\<close>

theorem sample_layer_zero_denominator:
  assumes "i < length (np_atleast_2d xy)"
  shows
    "(let p = np_atleast_2d xy ! i;
          zs = rnd fa (rnd fa (st + rnd fa (0.5 * th)) + rnd fa (0.5 * pt));
          tth_nom = fst (cart_to_angles api det p);
          sin_tthn = fsin fa tth_nom;
          cos_tthn = fcos fa tth_nom;
          cos_beta = - vz (fdhat fa (rmat det) (tvec det) p);
          denom = rounded (rnd fa) (np_sub
                    (rounded (rnd fa) (np_div (Fin (rnd fa (sd * cos_beta))) (Fin zs)))
                    (Fin cos_tthn));
          half_pi = rnd fa (pi / 2);
          raw = fst (tth_corr_sample_layer_rounded fa api det xy st th pt sd False ! i);
          nominal = fst (tth_corr_sample_layer_rounded fa api det xy st th pt sd True ! i)
      in (denom = Fin 0 \<longrightarrow>
            raw = (if 0 < sin_tthn then Fin (- half_pi)
                   else if sin_tthn < 0 then Fin half_pi else NaN)
          \<and> nominal = (if 0 < sin_tthn then Fin (rnd fa (tth_nom - half_pi))
                   else if sin_tthn < 0 then Fin (rnd fa (tth_nom + half_pi)) else NaN))
       \<and> (denom \<noteq> Fin 0 \<and> denom \<noteq> NaN \<longrightarrow> np_isfinite raw \<and> np_isfinite nominal)
       \<and> (denom = NaN \<longrightarrow> raw = NaN \<and> nominal = NaN))"
proof -
  let ?p = "np_atleast_2d xy ! i"
  let ?t = "fst (cart_to_angles api det ?p)"
  let ?zs = "rnd fa (rnd fa (st + rnd fa (0.5 * th)) + rnd fa (0.5 * pt))"
  let ?d = "rounded (rnd fa) (np_sub
              (rounded (rnd fa) (np_div
                 (Fin (rnd fa (sd * - vz (fdhat fa (rmat det) (tvec det) ?p)))) (Fin ?zs)))
              (Fin (fcos fa ?t)))"
  let ?c = "np_arctan_rounded fa (rounded (rnd fa) (np_div (Fin (fsin fa ?t)) ?d))"
  have raw: "fst (tth_corr_sample_layer_rounded fa api det xy st th pt sd False ! i) = np_neg ?c"
    using assms by (simp add: tth_corr_sample_layer_rounded_rows Let_def
        del: np_div.simps np_sub.simps np_arctan_rounded.simps np_neg.simps rounded.simps)
  have nom: "fst (tth_corr_sample_layer_rounded fa api det xy st th pt sd True ! i) =
               rounded (rnd fa) (np_sub (Fin ?t) ?c)"
    using assms by (simp add: tth_corr_sample_layer_rounded_rows Let_def
        del: np_div.simps np_sub.simps np_arctan_rounded.simps np_neg.simps rounded.simps)
  have zero: "?d = Fin 0 \<Longrightarrow>
      ?c = (if 0 < fsin fa ?t then Fin (rnd fa (pi / 2))
            else if fsin fa ?t < 0 then Fin (- rnd fa (pi / 2)) else NaN)"
    by (simp only: quotient_zero_denominator)
  have other: "?d \<noteq> Fin 0 \<Longrightarrow> ?d \<noteq> NaN \<Longrightarrow> np_isfinite ?c"
    by (rule quotient_other_denominator)
  have nan: "?d = NaN \<Longrightarrow> ?c = NaN"
    by (simp only: quotient_nan_denominator)
  have a: "?d = Fin 0 \<Longrightarrow>
      np_neg ?c = (if 0 < fsin fa ?t then Fin (- rnd fa (pi / 2))
                   else if fsin fa ?t < 0 then Fin (rnd fa (pi / 2)) else NaN)
    \<and> rounded (rnd fa) (np_sub (Fin ?t) ?c) =
        (if 0 < fsin fa ?t then Fin (rnd fa (?t - rnd fa (pi / 2)))
         else if fsin fa ?t < 0 then Fin (rnd fa (?t + rnd fa (pi / 2))) else NaN)"
    using zero by simp
  have b: "?d \<noteq> Fin 0 \<Longrightarrow> ?d \<noteq> NaN \<Longrightarrow>
      np_isfinite (np_neg ?c) \<and> np_isfinite (rounded (rnd fa) (np_sub (Fin ?t) ?c))"
    using other finite_outputs by blast
  have c: "?d = NaN \<Longrightarrow> np_neg ?c = NaN \<and> rounded (rnd fa) (np_sub (Fin ?t) ?c) = NaN"
    using nan by simp
  show ?thesis
    unfolding Let_def raw nom using a b c by blast
qed

theorem sample_layer_zero_denominator_witness:
  "(1::nat) < length (np_atleast_2d (Batch [(0, 0), (3, 0)]))
   \<and> rounded (rnd exact_arith) (np_sub
        (rounded (rnd exact_arith) (np_div
           (Fin (rnd exact_arith
              (4 * - vz (fdhat exact_arith (rmat demo_det) (tvec demo_det) (3, 0)))))
           (Fin (rnd exact_arith (rnd exact_arith (4 + rnd exact_arith (0.5 * 0))
                                   + rnd exact_arith (0.5 * 0))))))
        (Fin (fcos exact_arith (fst (cart_to_angles planar demo_det (3, 0)))))) = Fin 0
   \<and> fst (tth_corr_sample_layer_rounded exact_arith planar demo_det (Batch [(0, 0), (3, 0)])
            4 0 0 4 False ! 1) = Fin (- (pi / 2))
   \<and> fst (tth_corr_sample_layer_rounded exact_arith planar demo_det (Batch [(0, 0), (3, 0)])
            4 0 0 4 True ! 1) = Fin (arccos (4 / 5) - pi / 2)
   \<and> fst (tth_corr_sample_layer_rounded exact_arith planar demo_det (Batch [(0, 0), (3, 0)])
            4 0 0 4 False ! 0) = NaN
   \<and> rounded (rnd exact_arith) (np_sub
        (rounded (rnd exact_arith) (np_div
           (Fin (rnd exact_arith
              (7 * - vz (fdhat exact_arith (rmat demo_det) (tvec demo_det) (3, 0)))))
           (Fin (rnd exact_arith (rnd exact_arith (4 + rnd exact_arith (0.5 * 0))
                                   + rnd exact_arith (0.5 * 0))))))
        (Fin (fcos exact_arith (fst (cart_to_angles planar demo_det (3, 0)))))) = Fin (3 / 5)
   \<and> np_isfinite (fst (tth_corr_sample_layer_rounded exact_arith planar demo_det
            (Batch [(0, 0), (3, 0)]) 4 0 0 7 False ! 1))
   \<and> np_isfinite (fst (tth_corr_sample_layer_rounded exact_arith planar demo_det
            (Batch [(0, 0), (3, 0)]) 4 0 0 7 True ! 1))"
  using
    sample_layer_zero_denominator [where i = 1 and xy = "Batch [(0, 0), (3, 0)]" and st = 4
      and th = 0 and pt = 0 and api = planar and det = demo_det and sd = 4 and fa = exact_arith]
    sample_layer_zero_denominator [where i = 0 and xy = "Batch [(0, 0), (3, 0)]" and st = 4
      and th = 0 and pt = 0 and api = planar and det = demo_det and sd = 4 and fa = exact_arith]
    sample_layer_zero_denominator [where i = 1 and xy = "Batch [(0, 0), (3, 0)]" and st = 4
      and th = 0 and pt = 0 and api = planar and det = demo_det and sd = 7 and fa = exact_arith]
  by (simp add: Let_def exact_fields row_dot_transpose3 demo_cart_to_angles_30
        demo_cart_to_angles_00 demo_dhat_30 demo_dhat_00 sin_arccos_45)

text \<open>
  C7 as stated fails: a row with a zero denominator and \<open>sin tth_nom \<noteq> 0\<close> gets the
  finite value \<open>- \<pi>/2\<close>.
\<close>

theorem singular_row_is_finite:
  "4 * - vz (unit_vec (vec_add (mat_vec (rmat demo_det) (3, 0, 0)) (tvec demo_det)))
         / (4 + 0 / 2 + 0 / 2) - cos (fst (cart_to_angles planar demo_det (3, 0))) = 0
   \<and> tth_corr_sample_layer planar demo_det (Batch [(0, 0), (3, 0)]) 4 0 0 4 False ! 1 =
       (Fin (- (pi / 2)), 0)
   \<and> np_isfinite (fst (tth_corr_sample_layer planar demo_det (Batch [(0, 0), (3, 0)]) 4 0 0 4 False ! 1))"
  by (simp add: tth_corr_sample_layer_rows Let_def demo_cart_to_angles_30 demo_dhat_30
        sin_arccos_45)


text \<open>
  C8. The point evaluators return one \<open>(2\<theta>, \<eta>)\<close> row for each row of the input batch;
  the map evaluators return, for an instrument (its keys distinct, as in a dictionary), a
  dictionary with the keys of \<open>instrument.detectors\<close>, each entry a 2-D array with the
  shape of that detector's pixel grid.
\<close>

theorem output_shapes:
  assumes "distinct (map fst (detectors instr))"
  shows "length (tth_corr_sample_layer api det xy st th pt sd rn) = length (np_atleast_2d xy)
       \<and> length (tth_corr_pinhole api det xy t r rn) = length (np_atleast_2d xy)
       \<and> (\<exists>d. tth_corr_map_sample_layer api instr st th pt = Inr d
            \<and> map fst d = map fst (detectors instr)
            \<and> (\<forall>(k, dt) \<in> set (detectors instr).
                  \<exists>field. map_of d k = Some (Some field)
                        \<and> length field = fst (shape dt)
                        \<and> (\<forall>row \<in> set field. length row = snd (shape dt))))
       \<and> (\<exists>d. tth_corr_map_pinhole api instr t r = Inr d
            \<and> map fst d = map fst (detectors instr)
            \<and> (\<forall>(k, dt) \<in> set (detectors instr).
                  \<exists>field. map_of d k = Some (Some field)
                        \<and> length field = fst (shape dt)
                        \<and> (\<forall>row \<in> set field. length row = snd (shape dt))))"
proof -
  have a: "length (tth_corr_sample_layer api det xy st th pt sd rn) = length (np_atleast_2d xy)"
    by (simp add: tth_corr_sample_layer_rows)
  have b: "length (tth_corr_pinhole api det xy t r rn) = length (np_atleast_2d xy)"
    by (simp add: tth_corr_pinhole_rows)
  have c: "\<exists>d. tth_corr_map_sample_layer api instr st th pt = Inr d
            \<and> map fst d = map fst (detectors instr)
            \<and> (\<forall>(k, dt) \<in> set (detectors instr).
                  \<exists>field. map_of d k = Some (Some field)
                        \<and> length field = fst (shape dt)
                        \<and> (\<forall>row \<in> set field. length row = snd (shape dt)))"
    unfolding tth_corr_map_sample_layer_eq [OF assms]
    by (auto simp: map_fst_fields map_of_fields [OF assms] length_grid grid_row_length)
  have d: "\<exists>d. tth_corr_map_pinhole api instr t r = Inr d
            \<and> map fst d = map fst (detectors instr)
            \<and> (\<forall>(k, dt) \<in> set (detectors instr).
                  \<exists>field. map_of d k = Some (Some field)
                        \<and> length field = fst (shape dt)
                        \<and> (\<forall>row \<in> set field. length row = snd (shape dt)))"
    unfolding tth_corr_map_pinhole_eq [OF assms]
    by (auto simp: map_fst_fields map_of_fields [OF assms] length_grid grid_row_length)
  show ?thesis using a b c d by blast
qed

theorem output_shapes_witness:
  "distinct (map fst (detectors (demo_instr 7)))
   \<and> length (tth_corr_sample_layer planar demo_det (Batch [(0, 0), (3, 0)]) 4 0 0 7 False) = 2
   \<and> length (tth_corr_pinhole planar demo_det (Batch [(0, 0), (3, 0)]) 2 1 False) = 2
   \<and> (\<exists>d field. tth_corr_map_sample_layer planar (demo_instr 7) 4 0 0 = Inr d
         \<and> map fst d = [''det1''] \<and> map_of d ''det1'' = Some (Some field)
         \<and> map length field = [2])
   \<and> (\<exists>d field. tth_corr_map_pinhole planar (demo_instr 7) 2 1 = Inr d
         \<and> map fst d = [''det1''] \<and> map_of d ''det1'' = Some (Some field)
         \<and> map length field = [2])"
proof -
  have h: "distinct (map fst (detectors (demo_instr 7)))"
    by (simp add: demo_instr_fields)
  show ?thesis
    using h output_shapes [OF h, where api = planar and det = demo_det
        and xy = "Batch [(0, 0), (3, 0)]" and st = 4 and th = 0 and pt = 0 and sd = 7
        and rn = False and t = 2 and r = 1]
    by (simp add: demo_layer_map demo_pinhole_map grid_1_2)
qed


text \<open>
  C9 (amended). Assigning, through a detector setter, a value that is not an instance of an
  allowed detector class raises at the assignment and leaves the object as it was.
  Assigning, through any other setter, a float, a bool, an int within the range of a
  double, a string (or bytes) that spells a number or an object that converts itself (\<open>__float__\<close>,
  \<open>__index__\<close>) stores the float. Every other value raises at the assignment and leaves
  the object as it was: OverflowError for an int beyond the range of a double, TypeError for
  an object without a conversion, ValueError for a string that spells no number, and what
  the object's own conversion raises.
\<close>

theorem setters_validate_at_assignment:
  "(\<not> isinstance_detector x \<longrightarrow>
       sl_set_detector sl x = (Some AssertionError, sl)
     \<and> ph_set_detector ph x = (Some AssertionError, ph))
   \<and> (x = PyFloat v
        \<or> x = PyInt n \<and> \<bar>n\<bar> < float_int_limit \<and> v = Fin (of_int n)
        \<or> x = PyBool b \<and> v = Fin (if b then 1 else 0)
        \<or> x = PyStr s \<and> parse s = Some v
        \<or> x = PyBytes s \<and> parse s = Some v
        \<or> x = PyObject c (FloatMethod (Inr v))
        \<or> x = PyObject c (IndexMethod (Inr n)) \<and> \<bar>n\<bar> < float_int_limit \<and> v = Fin (of_int n) \<longrightarrow>
       sl_set_standoff parse sl x = (None, sl\<lparr>sl_standoff := PyFloat v\<rparr>)
     \<and> sl_set_thickness parse sl x = (None, sl\<lparr>sl_thickness := PyFloat v\<rparr>)
     \<and> sl_set_ph_thickness parse sl x = (None, sl\<lparr>sl_ph_thickness := PyFloat v\<rparr>)
     \<and> sl_set_source_dist parse sl x = (None, sl\<lparr>sl_source_dist := PyFloat v\<rparr>)
     \<and> ph_set_ph_thickness parse ph x = (None, ph\<lparr>ph_ph_thickness := PyFloat v\<rparr>)
     \<and> ph_set_ph_radius parse ph x = (None, ph\<lparr>ph_ph_radius := PyFloat v\<rparr>))
   \<and> (x = PyInt n \<and> float_int_limit \<le> \<bar>n\<bar>
        \<or> x = PyObject c (IndexMethod (Inr n)) \<and> float_int_limit \<le> \<bar>n\<bar> \<longrightarrow>
       sl_set_standoff parse sl x = (Some OverflowError, sl)
     \<and> sl_set_thickness parse sl x = (Some OverflowError, sl)
     \<and> sl_set_ph_thickness parse sl x = (Some OverflowError, sl)
     \<and> sl_set_source_dist parse sl x = (Some OverflowError, sl)
     \<and> ph_set_ph_thickness parse ph x = (Some OverflowError, ph)
     \<and> ph_set_ph_radius parse ph x = (Some OverflowError, ph))
   \<and> (x = PyNone \<or> x = PyComplex re im \<or> x = PyDetector d \<or> x = PyObject c NoConversion \<longrightarrow>
       sl_set_standoff parse sl x = (Some TypeError, sl)
     \<and> sl_set_thickness parse sl x = (Some TypeError, sl)
     \<and> sl_set_ph_thickness parse sl x = (Some TypeError, sl)
     \<and> sl_set_source_dist parse sl x = (Some TypeError, sl)
     \<and> ph_set_ph_thickness parse ph x = (Some TypeError, ph)
     \<and> ph_set_ph_radius parse ph x = (Some TypeError, ph))
   \<and> (x = PyStr s \<and> parse s = None \<or> x = PyBytes s \<and> parse s = None \<longrightarrow>
       sl_set_standoff parse sl x = (Some ValueError, sl)
     \<and> sl_set_thickness parse sl x = (Some ValueError, sl)
     \<and> sl_set_ph_thickness parse sl x = (Some ValueError, sl)
     \<and> sl_set_source_dist parse sl x = (Some ValueError, sl)
     \<and> ph_set_ph_thickness parse ph x = (Some ValueError, ph)
     \<and> ph_set_ph_radius parse ph x = (Some ValueError, ph))
   \<and> (x = PyObject c (FloatMethod (Inl e)) \<or> x = PyObject c (IndexMethod (Inl e)) \<longrightarrow>
       sl_set_standoff parse sl x = (Some e, sl)
     \<and> sl_set_thickness parse sl x = (Some e, sl)
     \<and> sl_set_ph_thickness parse sl x = (Some e, sl)
     \<and> sl_set_source_dist parse sl x = (Some e, sl)
     \<and> ph_set_ph_thickness parse ph x = (Some e, ph)
     \<and> ph_set_ph_radius parse ph x = (Some e, ph))"
  by (auto simp: sl_set_detector_def ph_set_detector_def sl_set_standoff_def
        sl_set_thickness_def sl_set_ph_thickness_def sl_set_source_dist_def
        ph_set_ph_thickness_def ph_set_ph_radius_def int_to_float_def)

theorem setters_validate_at_assignment_witness:
  "\<not> isinstance_detector (PyObject ''CylindricalDetector'' NoConversion)
   \<and> sl_set_detector
         (SampleLayerDistortion_init (PyDetector demo_det) (PyFloat (Fin 1)) (PyFloat (Fin 2))
            (PyFloat (Fin 3)) (PyFloat (Fin 4)))
         (PyObject ''CylindricalDetector'' NoConversion) =
       (Some AssertionError,
        SampleLayerDistortion_init (PyDetector demo_det) (PyFloat (Fin 1)) (PyFloat (Fin 2))
          (PyFloat (Fin 3)) (PyFloat (Fin 4)))
   \<and> ph_set_detector
         (PinholeDistortion_init (PyDetector demo_det) (PyFloat (Fin 1)) (PyFloat (Fin 2)))
         (PyObject ''CylindricalDetector'' NoConversion) =
       (Some AssertionError,
        PinholeDistortion_init (PyDetector demo_det) (PyFloat (Fin 1)) (PyFloat (Fin 2)))
   \<and> \<bar>7 :: int\<bar> < float_int_limit
   \<and> sl_set_standoff literal_parser
         (SampleLayerDistortion_init (PyDetector demo_det) (PyFloat (Fin 1)) (PyFloat (Fin 2))
            (PyFloat (Fin 3)) (PyFloat (Fin 4)))
         (PyInt 7) =
       (None,
        SampleLayerDistortion_init (PyDetector demo_det) (PyFloat (Fin 7)) (PyFloat (Fin 2))
          (PyFloat (Fin 3)) (PyFloat (Fin 4)))
   \<and> ph_set_ph_radius literal_parser
         (PinholeDistortion_init (PyDetector demo_det) (PyFloat (Fin 1)) (PyFloat (Fin 2)))
         (PyObject ''Decimal'' (FloatMethod (Inr (Fin (5 / 2))))) =
       (None, PinholeDistortion_init (PyDetector demo_det) (PyFloat (Fin 1)) (PyFloat (Fin (5 / 2))))
   \<and> ph_set_ph_radius literal_parser
         (PinholeDistortion_init (PyDetector demo_det) (PyFloat (Fin 1)) (PyFloat (Fin 2)))
         (PyStr ''2.5'') =
       (None, PinholeDistortion_init (PyDetector demo_det) (PyFloat (Fin 1)) (PyFloat (Fin (5 / 2))))
   \<and> ph_set_ph_radius literal_parser
         (PinholeDistortion_init (PyDetector demo_det) (PyFloat (Fin 1)) (PyFloat (Fin 2)))
         (PyStr ''wide'') =
       (Some ValueError,
        PinholeDistortion_init (PyDetector demo_det) (PyFloat (Fin 1)) (PyFloat (Fin 2)))
   \<and> float_int_limit \<le> \<bar>10 ^ 309\<bar>
   \<and> ph_set_ph_thickness literal_parser
         (PinholeDistortion_init (PyDetector demo_det) (PyFloat (Fin 1)) (PyFloat (Fin 2)))
         (PyInt (10 ^ 309)) =
       (Some OverflowError,
        PinholeDistortion_init (PyDetector demo_det) (PyFloat (Fin 1)) (PyFloat (Fin 2)))
   \<and> sl_set_source_dist literal_parser
         (SampleLayerDistortion_init (PyDetector demo_det) (PyFloat (Fin 1)) (PyFloat (Fin 2))
            (PyFloat (Fin 3)) (PyFloat (Fin 4)))
         PyNone =
       (Some TypeError,
        SampleLayerDistortion_init (PyDetector demo_det) (PyFloat (Fin 1)) (PyFloat (Fin 2))
          (PyFloat (Fin 3)) (PyFloat (Fin 4)))"
proof -
  let ?sl = "SampleLayerDistortion_init (PyDetector demo_det) (PyFloat (Fin 1)) (PyFloat (Fin 2))
               (PyFloat (Fin 3)) (PyFloat (Fin 4))"
  let ?ph = "PinholeDistortion_init (PyDetector demo_det) (PyFloat (Fin 1)) (PyFloat (Fin 2))"
  have big: "float_int_limit \<le> \<bar>10 ^ 309\<bar>"
    using float_int_limit_less by simp
  note t = setters_validate_at_assignment [where sl = ?sl and ph = ?ph
      and parse = literal_parser]
  show ?thesis
    using seven_in_range big
      t [where x = "PyObject ''CylindricalDetector'' NoConversion"]
      t [where x = "PyInt 7" and n = 7 and v = "Fin 7"]
      t [where x = "PyObject ''Decimal'' (FloatMethod (Inr (Fin (5 / 2))))"
          and c = "''Decimal''" and v = "Fin (5 / 2)"]
      t [where x = "PyStr ''2.5''" and s = "''2.5''" and v = "Fin (5 / 2)"]
      t [where x = "PyStr ''wide''" and s = "''wide''"]
      t [where x = "PyInt (10 ^ 309)" and n = "10 ^ 309"]
      t [where x = PyNone]
    by (simp add: SampleLayerDistortion_init_def PinholeDistortion_init_def literal_parser_def
        del: power_numeral)
qed

text \<open>
  C9 as stated fails: the int \<open>10^309\<close> is a numeric scalar that no setter stores;
  \<open>float\<close> raises OverflowError and the attribute keeps its value.
\<close>

theorem huge_int_is_not_stored:
  "sl_set_standoff literal_parser
     (SampleLayerDistortion_init (PyDetector demo_det) (PyFloat (Fin 1)) (PyFloat (Fin 2))
        (PyFloat (Fin 3)) (PyFloat (Fin 4)))
     (PyInt (10 ^ 309)) =
   (Some OverflowError,
    SampleLayerDistortion_init (PyDetector demo_det) (PyFloat (Fin 1)) (PyFloat (Fin 2))
      (PyFloat (Fin 3)) (PyFloat (Fin 4)))"
proof -
  have "\<not> \<bar>10 ^ 309 :: int\<bar> < float_int_limit"
    using float_int_limit_less by simp
  then show ?thesis
    by (simp add: sl_set_standoff_def int_to_float_def del: power_numeral)
qed


text \<open>
  C10. The constructors store every argument as it is given, whatever it is, and never
  raise. The check of the detector's class and the conversion to float happen in the
  setters only: assigning the stored detector again raises unless it is a detector, and
  assigning a stored int, \<open>None\<close> or string again converts it or raises.
\<close>

theorem constructors_store_arguments_unchecked:
  "sl_detector (SampleLayerDistortion_init d a b c e) = d
   \<and> sl_standoff (SampleLayerDistortion_init d a b c e) = a
   \<and> sl_thickness (SampleLayerDistortion_init d a b c e) = b
   \<and> sl_ph_thickness (SampleLayerDistortion_init d a b c e) = c
   \<and> sl_source_dist (SampleLayerDistortion_init d a b c e) = e
   \<and> ph_detector (PinholeDistortion_init d a b) = d
   \<and> ph_ph_thickness (PinholeDistortion_init d a b) = a
   \<and> ph_ph_radius (PinholeDistortion_init d a b) = b
   \<and> sl_set_detector (SampleLayerDistortion_init d a b c e) d =
       (if isinstance_detector d then (None, SampleLayerDistortion_init d a b c e)
        else (Some AssertionError, SampleLayerDistortion_init d a b c e))
   \<and> ph_set_detector (PinholeDistortion_init d a b) d =
       (if isinstance_detector d then (None, PinholeDistortion_init d a b)
        else (Some AssertionError, PinholeDistortion_init d a b))
   \<and> sl_standoff (SampleLayerDistortion_init d (PyInt n) b c e) = PyInt n
   \<and> sl_set_standoff parse (SampleLayerDistortion_init d (PyInt n) b c e) (PyInt n) =
       (if \<bar>n\<bar> < float_int_limit
        then (None, SampleLayerDistortion_init d (PyFloat (Fin (of_int n))) b c e)
        else (Some OverflowError, SampleLayerDistortion_init d (PyInt n) b c e))
   \<and> sl_standoff (SampleLayerDistortion_init d PyNone b c e) = PyNone
   \<and> sl_set_standoff parse (SampleLayerDistortion_init d PyNone b c e) PyNone =
       (Some TypeError, SampleLayerDistortion_init d PyNone b c e)
   \<and> ph_ph_radius (PinholeDistortion_init d a (PyStr ''wide'')) = PyStr ''wide''
   \<and> ph_set_ph_radius literal_parser (PinholeDistortion_init d a (PyStr ''wide''))
         (PyStr ''wide'') =
       (Some ValueError, PinholeDistortion_init d a (PyStr ''wide''))"
  by (simp add: SampleLayerDistortion_init_def PinholeDistortion_init_def
        sl_set_detector_def ph_set_detector_def sl_set_standoff_def ph_set_ph_radius_def
        literal_parser_def int_to_float_def)

end
